theory Spec2Isabelle
  imports Main "HOL-Library.Word"
begin

section \<open>JavaScript strings, sets and numbers\<close>

text \<open>
  A JavaScript string is a sequence of UTF-16 code units; a code unit is a 16-bit word,
  so that \<open>length\<close>, \<open>slice\<close> and \<open>trim\<close> count and test what the source counts
  and tests. \<open>codeUnit\<close> is the code unit of an ASCII character and \<open>ascii\<close> the string of an
  ASCII literal. The source's literals outside ASCII are a placeholder title and the name
  of the merged file, which are named constants here (spelled by their code units), and the
  messages of the errors, which are the constructors of the type \<open>error\<close>.
\<close>

type_synonym jschar = "16 word"

type_synonym jsstring = "jschar list"

abbreviation codeUnit :: "char \<Rightarrow> jschar" where
  "codeUnit c \<equiv> of_char c"

abbreviation ascii :: "char list \<Rightarrow> jsstring" where
  "ascii s \<equiv> map codeUnit s"

text \<open>\<open>String.prototype.split\<close> with a one-character separator.\<close>

fun split :: "jschar \<Rightarrow> jsstring \<Rightarrow> jsstring list" where
  "split sep [] = [[]]"
| "split sep (c # cs) =
     (if c = sep then [] # split sep cs
      else (case split sep cs of [] \<Rightarrow> [[c]] | s # ss \<Rightarrow> (c # s) # ss))"

text \<open>
  Reading an array element that is used in a string concatenation: out of range the
  element is \<open>undefined\<close>, which the concatenation renders as the text \<open>undefined\<close>.
\<close>

definition nthOrUndefined :: "jsstring list \<Rightarrow> nat \<Rightarrow> jsstring" where
  "nthOrUndefined xs i = (if i < length xs then xs ! i else ascii ''undefined'')"

text \<open>
  \<open>String.prototype.trim\<close> removes the white space and the line terminators of
  ECMAScript from both ends: TAB, LF, VT, FF, CR, the space, the no-break space, U+1680,
  U+2000 to U+200A, U+2028, U+2029, U+202F, U+205F, U+3000 and U+FEFF.
\<close>

definition isWhiteSpace :: "jschar \<Rightarrow> bool" where
  "isWhiteSpace c =
     (c \<in> {0x9, 0xA, 0xB, 0xC, 0xD, 0x20, 0xA0, 0x1680, 0x2028, 0x2029, 0x202F, 0x205F,
            0x3000, 0xFEFF} \<or> (0x2000 \<le> c \<and> c \<le> 0x200A))"

definition trim :: "jsstring \<Rightarrow> jsstring" where
  "trim s = rev (dropWhile isWhiteSpace (rev (dropWhile isWhiteSpace s)))"

text \<open>\<open>String(n)\<close> for a natural number, and \<open>padStart(2, '0')\<close>.\<close>

definition digitChar :: "nat \<Rightarrow> jschar" where
  "digitChar d = 0x30 + of_nat d"

function decimal :: "nat \<Rightarrow> jsstring" where
  "decimal n = (if n < 10 then [digitChar n] else decimal (n div 10) @ [digitChar (n mod 10)])"
  by pat_completeness auto
termination
  by (relation "measure id") auto

definition padStart2 :: "jsstring \<Rightarrow> jsstring" where
  "padStart2 s = replicate (2 - length s) (codeUnit CHR ''0'') @ s"

text \<open>\<open>Array.prototype.join\<close>.\<close>

fun join :: "jsstring \<Rightarrow> jsstring list \<Rightarrow> jsstring" where
  "join sep [] = []"
| "join sep [x] = x"
| "join sep (x # y # ys) = x @ sep @ join sep (y # ys)"

text \<open>
  A JavaScript \<open>Set\<close> keeps its elements in insertion order; it is the list of its
  elements, \<open>has\<close> is membership, \<open>add\<close> appends an element that is not yet there.
\<close>

type_synonym 'a jsSet = "'a list"

definition has :: "'a jsSet \<Rightarrow> 'a \<Rightarrow> bool" where
  "has s x = (x \<in> set s)"

definition setAdd :: "'a \<Rightarrow> 'a jsSet \<Rightarrow> 'a jsSet" where
  "setAdd x s = (if x \<in> set s then s else s @ [x])"

definition newSet :: "'a list \<Rightarrow> 'a jsSet" where
  "newSet xs = fold setAdd xs []"

text \<open>
  Page numbers are integers, but \<open>Math.min\<close> over \<open>startPage || Infinity\<close> can yield
  \<open>Infinity\<close>, and so can the \<open>endPage\<close> computed from it.
\<close>

datatype jsnum = Num int | Infinity

fun jsmin :: "jsnum \<Rightarrow> jsnum \<Rightarrow> jsnum" where
  "jsmin Infinity y = y"
| "jsmin x Infinity = x"
| "jsmin (Num a) (Num b) = Num (min a b)"

definition Math_min :: "jsnum list \<Rightarrow> jsnum" where
  "Math_min xs = foldr jsmin xs Infinity"

fun pageLess :: "int option \<Rightarrow> jsnum \<Rightarrow> bool" where
  "pageLess None y = False"
| "pageLess (Some a) Infinity = True"
| "pageLess (Some a) (Num b) = (a < b)"

fun minusOne :: "jsnum \<Rightarrow> jsnum" where
  "minusOne Infinity = Infinity"
| "minusOne (Num b) = Num (b - 1)"

text \<open>Truthiness of an optional number and of an optional string.\<close>

fun truthyPage :: "int option \<Rightarrow> bool" where
  "truthyPage None = False"
| "truthyPage (Some p) = (p \<noteq> 0)"

fun truthyNum :: "jsnum option \<Rightarrow> bool" where
  "truthyNum None = False"
| "truthyNum (Some Infinity) = True"
| "truthyNum (Some (Num p)) = (p \<noteq> 0)"

fun truthyString :: "jsstring option \<Rightarrow> bool" where
  "truthyString None = False"
| "truthyString (Some s) = (s \<noteq> [])"

section \<open>PDF chapters and the range resolver (pdfProcessor.ts)\<close>

text \<open>
  The interface \<open>PdfChapter\<close>: id, title, startPage, endPage, level, children.
  An absent \<open>children\<close> field and an empty array are tested together everywhere in the
  source (\<open>!item.children || item.children.length === 0\<close>), so both are the empty list.
  Page numbers are JavaScript numbers that only ever hold integers; they are \<open>int\<close>.
\<close>

datatype PdfChapter =
  PdfChapter (pdf_id: jsstring) (pdf_title: jsstring) (pdf_startPage: int) (pdf_endPage: int)
    (pdf_level: nat) (pdf_children: "PdfChapter list")

text \<open>
  An entry of the outline that pdf.js returns: its title, the page index its destination
  resolves to (\<open>None\<close> when the entry has no destination, when the destination is
  unknown, or when resolving it throws: the source then keeps page 1), and its sub-entries.
\<close>

datatype OutlineItem =
  OutlineItem (oi_title: jsstring) (oi_pageIndex: "nat option") (oi_items: "OutlineItem list")

text \<open>
  \<open>parseOutlineItem\<close>, with the loop over \<open>item.items\<close> that numbers the children
  \<open>idPrefix-0\<close>, \<open>idPrefix-1\<close>, ... The same loop, started with the prefix \<open>chapter\<close> at
  level 0, is the one in \<open>extractPdfChapters\<close> over the top-level entries.
\<close>

function (sequential) parseOutlineItem :: "OutlineItem \<Rightarrow> nat \<Rightarrow> jsstring \<Rightarrow> PdfChapter"
  and parseOutlineItems :: "OutlineItem list \<Rightarrow> nat \<Rightarrow> jsstring \<Rightarrow> nat \<Rightarrow> PdfChapter list" where
  "parseOutlineItem (OutlineItem t dest items) level idPrefix =
     (let startPage = (case dest of None \<Rightarrow> 1 | Some pageIndex \<Rightarrow> int pageIndex + 1)
      in PdfChapter idPrefix t startPage startPage level
           (parseOutlineItems items (Suc level) idPrefix 0))"
| "parseOutlineItems [] level idPrefix i = []"
| "parseOutlineItems (item # rest) level idPrefix i =
     parseOutlineItem item level (idPrefix @ ascii ''-'' @ decimal i)
     # parseOutlineItems rest level idPrefix (Suc i)"
  by pat_completeness auto
termination
  by (relation "measure (\<lambda>x. case x of Inl (item, _, _) \<Rightarrow> 2 * size item + 1
                                    | Inr (items, _, _, _) \<Rightarrow> 2 * size_list size items)") auto

text \<open>\<open>collectLeaves\<close>: the leaves of the forest, pushed in depth-first order.\<close>

fun collectLeaves :: "PdfChapter list \<Rightarrow> PdfChapter list" where
  "collectLeaves [] = []"
| "collectLeaves (PdfChapter i t s e l cs # items) =
     (if cs = [] then [PdfChapter i t s e l cs] else collectLeaves cs) @ collectLeaves items"

text \<open>
  \<open>leafChapters\<close> holds references to the leaf objects of the tree. A reference is modelled
  by the position of the leaf in the depth-first order in which \<open>collectLeaves\<close> pushed it;
  the array is then sorted by \<open>startPage\<close> (\<open>Array.prototype.sort\<close> is stable, as is
  \<open>sort_key\<close>).
\<close>

definition sortLeafChapters :: "PdfChapter list \<Rightarrow> (nat \<times> PdfChapter) list" where
  "sortLeafChapters leafChapters = sort_key (pdf_startPage \<circ> snd) (enumerate 0 leafChapters)"

text \<open>
  The loop over the sorted array: every leaf but the last ends one page before the next
  leaf starts, the last leaf ends on \<open>totalPages\<close>. The loop writes \<open>endPage\<close> only, so the
  \<open>startPage\<close> it reads from the next leaf is the original one. The result lists, for each
  reference, the value written through it.
\<close>

fun leafEndPages :: "int \<Rightarrow> (nat \<times> PdfChapter) list \<Rightarrow> (nat \<times> int) list" where
  "leafEndPages totalPages [] = []"
| "leafEndPages totalPages [(r, current)] = [(r, totalPages)]"
| "leafEndPages totalPages ((r, current) # (r', nxt) # rest) =
     (r, pdf_startPage nxt - 1) # leafEndPages totalPages ((r', nxt) # rest)"

text \<open>
  The writes land in the tree: the leaf at depth-first position \<open>k\<close> receives the value
  written through reference \<open>k\<close>; a leaf that was not written keeps its \<open>endPage\<close>.
\<close>

fun storeLeafEndPages :: "(nat \<rightharpoonup> int) \<Rightarrow> nat \<Rightarrow> PdfChapter list \<Rightarrow> PdfChapter list" where
  "storeLeafEndPages m k [] = []"
| "storeLeafEndPages m k (PdfChapter i t s e l cs # items) =
     (if cs = []
      then PdfChapter i t s (case m k of Some e' \<Rightarrow> e' | None \<Rightarrow> e) l cs
             # storeLeafEndPages m (Suc k) items
      else PdfChapter i t s e l (storeLeafEndPages m k cs)
             # storeLeafEndPages m (k + length (collectLeaves cs)) items)"

function getLastDescendantEndPage :: "PdfChapter \<Rightarrow> int" where
  "getLastDescendantEndPage (PdfChapter i t s e l cs) =
     (if cs = [] then e else getLastDescendantEndPage (last cs))"
  by pat_completeness auto
termination
proof (relation "measure size")
  show "wf (measure size)" by simp
next
  fix i t s e l and cs :: "PdfChapter list"
  assume ne: "cs \<noteq> []"
  have "xs \<noteq> [] \<Longrightarrow> size (last xs) \<le> size_list size xs" for xs :: "PdfChapter list"
    by (induction xs) auto
  from this [OF ne] show "(last cs, PdfChapter i t s e l cs) \<in> measure size"
    by simp
qed

text \<open>
  \<open>setParentEndPages\<close>: post-order; a node with children first has its children processed,
  then takes the \<open>endPage\<close> found by following last children down to a leaf.
\<close>

fun setParentEndPages :: "PdfChapter list \<Rightarrow> PdfChapter list" where
  "setParentEndPages [] = []"
| "setParentEndPages (PdfChapter i t s e l cs # items) =
     (if cs \<noteq> []
      then (let cs' = setParentEndPages cs
            in PdfChapter i t s (getLastDescendantEndPage (PdfChapter i t s e l cs')) l cs')
      else PdfChapter i t s e l cs)
     # setParentEndPages items"

definition calculateEndPages :: "PdfChapter list \<Rightarrow> int \<Rightarrow> PdfChapter list" where
  "calculateEndPages chapters totalPages =
     (let leafChapters = sortLeafChapters (collectLeaves chapters);
          written = leafEndPages totalPages leafChapters
      in setParentEndPages (storeLeafEndPages (map_of written) 0 chapters))"

text \<open>
  The errors the two extractors throw, each an \<open>Error\<close> with a message of its own:
  \<open>MissingContainer\<close> (invalid EPUB: no container.xml), \<open>MissingRootfile\<close> (invalid
  EPUB: no rootfile), \<open>MissingOpfPath\<close> (invalid EPUB: no path to content.opf),
  \<open>MissingOpf\<close> (invalid EPUB: content.opf not found), \<open>NoEpubToc\<close> (this EPUB file
  has no table of contents, chapters cannot be recognised) and \<open>NoPdfOutline\<close> (this PDF
  file has no table of contents, chapters cannot be recognised).

  \<open>extractPdfChapters\<close> takes what pdf.js returns for the document: the outline (\<open>null\<close>
  or an array) and the number of pages. The progress callbacks and the pauses between
  entries do not touch the result.
\<close>

datatype error =
    MissingContainer | MissingRootfile | MissingOpfPath | MissingOpf
  | NoEpubToc | NoPdfOutline

definition extractPdfChapters :: "OutlineItem list option \<Rightarrow> nat \<Rightarrow> error + PdfChapter list" where
  "extractPdfChapters outline numPages =
     (case outline of
        None \<Rightarrow> Inl NoPdfOutline
      | Some entries \<Rightarrow>
          if entries = [] then Inl NoPdfOutline
          else Inr (calculateEndPages (parseOutlineItems entries 0 (ascii ''chapter'') 0) (int numPages)))"

section \<open>EPUB navigation and content loading (epubProcessor.ts)\<close>

text \<open>
  The interface \<open>EpubChapter\<close>: id, title, href, anchor, content, level, children.
\<close>

datatype EpubChapter =
  EpubChapter (epub_id: jsstring) (epub_title: jsstring) (href: jsstring) (anchor: "jsstring option")
    (epub_content: "jsstring option") (epub_level: nat) (epub_children: "EpubChapter list")

text \<open>The placeholder title used when an entry's label is blank.\<close>

definition placeholderTitle :: jsstring where
  "placeholderTitle = [0x7AE0, 0x8282]"

text \<open>
  The expression both parsers apply to an entry's target (\<open>hrefFull\<close>):
  \<open>hrefFull.includes('#') ? [hrefFull.split('#')[0], '#' + hrefFull.split('#')[1]]
  : [hrefFull, undefined]\<close>.
\<close>

definition splitTarget :: "jsstring \<Rightarrow> jsstring \<times> jsstring option" where
  "splitTarget hrefFull =
     (if codeUnit CHR ''#'' \<in> set hrefFull
      then (nthOrUndefined (split (codeUnit CHR ''#'') hrefFull) 0,
            Some (ascii ''#'' @ nthOrUndefined (split (codeUnit CHR ''#'') hrefFull) 1))
      else (hrefFull, None))"

definition titleOrPlaceholder :: "jsstring \<Rightarrow> jsstring" where
  "titleOrPlaceholder textContent = (if trim textContent = [] then placeholderTitle else trim textContent)"

text \<open>
  What \<open>parseNavPoint\<close> reads of an NCX \<open>navPoint\<close> element: the text of its
  \<open>navLabel > text\<close> child (\<open>None\<close>: no such element), its \<open>content\<close> child
  (\<open>None\<close>: no such element; \<open>Some None\<close>: the element has no \<open>src\<close> attribute) and its
  child \<open>navPoint\<close> elements. The loop over the children numbers them; a child that
  parses to \<open>null\<close> is left out but still counted.
\<close>

datatype NavPoint =
  NavPoint (np_text: "jsstring option") (np_content: "jsstring option option")
    (np_navPoints: "NavPoint list")

function (sequential) parseNavPoint :: "NavPoint \<Rightarrow> jsstring \<Rightarrow> nat \<Rightarrow> EpubChapter option"
  and parseNavPoints :: "NavPoint list \<Rightarrow> jsstring \<Rightarrow> nat \<Rightarrow> nat \<Rightarrow> EpubChapter list" where
  "parseNavPoint (NavPoint text content childNavPoints) idPrefix level =
     (case text of
        None \<Rightarrow> None
      | Some textContent \<Rightarrow>
         (case content of
            None \<Rightarrow> None
          | Some src \<Rightarrow>
              (let hrefFull = (case src of None \<Rightarrow> [] | Some v \<Rightarrow> v);
                   target = splitTarget hrefFull
               in Some (EpubChapter idPrefix (titleOrPlaceholder textContent) (fst target)
                          (snd target) None level
                          (parseNavPoints childNavPoints idPrefix 0 (Suc level))))))"
| "parseNavPoints [] idPrefix index level = []"
| "parseNavPoints (navPoint # rest) idPrefix index level =
     (case parseNavPoint navPoint (idPrefix @ ascii ''-'' @ decimal index) level of
        None \<Rightarrow> []
      | Some child \<Rightarrow> [child])
     @ parseNavPoints rest idPrefix (Suc index) level"
  by pat_completeness auto
termination
  by (relation "measure (\<lambda>x. case x of Inl (n, _, _) \<Rightarrow> 2 * size n + 1
                                    | Inr (ns, _, _, _) \<Rightarrow> 2 * size_list size ns)") auto

text \<open>
  What \<open>parseNavList\<close> reads of an \<open>li\<close> of the navigation document: its link
  (\<open>None\<close>: no \<open>a[href]\<close>; otherwise the link's text and its \<open>href\<close>) and the items of
  its first nested list (none when there is no nested list).
\<close>

datatype NavItem =
  NavItem (li_link: "(jsstring \<times> jsstring) option") (li_subList: "NavItem list")

fun parseNavList :: "NavItem list \<Rightarrow> jsstring \<Rightarrow> nat \<Rightarrow> nat \<Rightarrow> EpubChapter list" where
  "parseNavList [] idPrefix level index = []"
| "parseNavList (NavItem link subList # items) idPrefix level index =
     (case link of
        None \<Rightarrow> []
      | Some (textContent, hrefAttr) \<Rightarrow>
          (let target = splitTarget hrefAttr;
               chapterId = idPrefix @ ascii ''-'' @ decimal index
           in [EpubChapter chapterId (titleOrPlaceholder textContent) (fst target) (snd target)
                 None level (parseNavList subList chapterId (Suc level) 0)]))
     @ parseNavList items idPrefix level (Suc index)"


text \<open>
  The unzipped archive, as far as the extractor reads it: \<open>META-INF/container.xml\<close>
  (its \<open>rootfile\<close> element, that element's \<open>full-path\<close>), the package documents, the
  navigation documents (\<open>None\<close>: no \<open>nav\<close> element or no list in it), the NCX documents
  (\<open>None\<close>: no \<open>navMap\<close>) and the text of the content documents, each by path.
\<close>

datatype ContainerXml = ContainerXml (rootfile: "jsstring option option")

record Opf =
  navHref :: "jsstring option"
  ncxHref :: "jsstring option"

record EpubArchive =
  containerFile :: "ContainerXml option"
  opfFiles :: "jsstring \<rightharpoonup> Opf"
  navFiles :: "jsstring \<rightharpoonup> NavItem list option"
  ncxFiles :: "jsstring \<rightharpoonup> NavPoint list option"
  textFiles :: "jsstring \<rightharpoonup> jsstring"

definition parseContainer :: "EpubArchive \<Rightarrow> error + jsstring" where
  "parseContainer jszip =
     (case containerFile jszip of
        None \<Rightarrow> Inl MissingContainer
      | Some doc \<Rightarrow>
         (case rootfile doc of
            None \<Rightarrow> Inl MissingRootfile
          | Some fullPath \<Rightarrow>
             (case fullPath of
                None \<Rightarrow> Inl MissingOpfPath
              | Some p \<Rightarrow> if p = [] then Inl MissingOpfPath else Inr p)))"

definition beforeLastSlash :: "jsstring \<Rightarrow> jsstring" where
  "beforeLastSlash p =
     (if codeUnit CHR ''/'' \<in> set p then rev (tl (dropWhile (\<lambda>c. c \<noteq> codeUnit CHR ''/'') (rev p))) else [])"

definition orUndefined :: "jsstring option \<Rightarrow> jsstring option" where
  "orUndefined v = (case v of None \<Rightarrow> None | Some s \<Rightarrow> if s = [] then None else Some s)"

definition parseContentOpf ::
  "EpubArchive \<Rightarrow> jsstring \<Rightarrow> error + (jsstring \<times> jsstring option \<times> jsstring option)" where
  "parseContentOpf jszip opfPath =
     (case opfFiles jszip opfPath of
        None \<Rightarrow> Inl MissingOpf
      | Some doc \<Rightarrow>
          Inr (beforeLastSlash opfPath, orUndefined (navHref doc), orUndefined (ncxHref doc)))"

definition parseNcx :: "EpubArchive \<Rightarrow> jsstring \<Rightarrow> EpubChapter list" where
  "parseNcx jszip ncxPath =
     (case ncxFiles jszip ncxPath of
        None \<Rightarrow> []
      | Some doc \<Rightarrow>
         (case doc of
            None \<Rightarrow> []
          | Some topLevelNavPoints \<Rightarrow> parseNavPoints topLevelNavPoints (ascii ''chapter'') 0 0))"

definition parseNav :: "EpubArchive \<Rightarrow> jsstring \<Rightarrow> EpubChapter list" where
  "parseNav jszip navPath =
     (case navFiles jszip navPath of
        None \<Rightarrow> []
      | Some doc \<Rightarrow>
         (case doc of
            None \<Rightarrow> []
          | Some list \<Rightarrow> parseNavList list (ascii ''chapter'') 0 0))"

definition inBase :: "jsstring \<Rightarrow> jsstring \<Rightarrow> jsstring" where
  "inBase basePath h = (if basePath \<noteq> [] then basePath @ ascii ''/'' @ h else h)"

fun collectEpubLeaves :: "EpubChapter list \<Rightarrow> EpubChapter list" where
  "collectEpubLeaves [] = []"
| "collectEpubLeaves (EpubChapter i t h a c l cs # items) =
     (if cs = [] then [EpubChapter i t h a c l cs] else collectEpubLeaves cs)
     @ collectEpubLeaves items"

text \<open>
  Content loading. The leaves are taken in batches of ten; the callbacks of one batch are
  started one after the other by \<open>batch.map\<close>, and each runs up to its first \<open>await\<close>
  before the next one starts. So every callback of a batch tests \<open>fileCache.has\<close> on the
  cache as the batch found it, and every callback whose path is not cached and whose file
  exists starts a read of its own (\<open>chapterFile.async('text')\<close>); the cache is written
  only when the reads complete, before the next batch. \<open>archiveReads\<close> records the reads
  in the order they are started, \<open>assigned\<close> the content given to each leaf (\<open>None\<close>: the
  leaf's \<open>content\<close> is not set). \<open>extractContentByAnchor\<close> works on the parsed document
  and is a parameter.
\<close>

record loaderState =
  fileCache :: "jsstring \<rightharpoonup> jsstring"
  archiveReads :: "jsstring list"
  assigned :: "jsstring option list"

definition startsLoad :: "EpubArchive \<Rightarrow> jsstring \<Rightarrow> (jsstring \<rightharpoonup> jsstring) \<Rightarrow> EpubChapter \<Rightarrow> bool" where
  "startsLoad jszip basePath cache chapter =
     (let chapterPath = inBase basePath (href chapter)
      in cache chapterPath = None \<and> textFiles jszip chapterPath \<noteq> None)"

definition cacheLoaded :: "EpubArchive \<Rightarrow> (jsstring \<rightharpoonup> jsstring) \<Rightarrow> jsstring \<Rightarrow> (jsstring \<rightharpoonup> jsstring)" where
  "cacheLoaded jszip cache chapterPath =
     (case textFiles jszip chapterPath of
        None \<Rightarrow> cache
      | Some fullContent \<Rightarrow> cache(chapterPath \<mapsto> fullContent))"

definition assignContent ::
  "(jsstring \<Rightarrow> jsstring \<Rightarrow> jsstring) \<Rightarrow> jsstring \<Rightarrow> (jsstring \<rightharpoonup> jsstring) \<Rightarrow> EpubChapter \<Rightarrow> jsstring option" where
  "assignContent extractContentByAnchor basePath cache chapter =
     (case cache (inBase basePath (href chapter)) of
        None \<Rightarrow> None
      | Some fullContent \<Rightarrow>
          if fullContent = [] then None
          else (case anchor chapter of
                  None \<Rightarrow> Some fullContent
                | Some a \<Rightarrow> if a = [] then Some fullContent
                            else Some (extractContentByAnchor fullContent a)))"

definition loadBatch ::
  "(jsstring \<Rightarrow> jsstring \<Rightarrow> jsstring) \<Rightarrow> EpubArchive \<Rightarrow> jsstring \<Rightarrow> EpubChapter list \<Rightarrow> loaderState
     \<Rightarrow> loaderState" where
  "loadBatch extractContentByAnchor jszip basePath batch st =
     (let started = map (\<lambda>chapter. inBase basePath (href chapter))
                      (filter (startsLoad jszip basePath (fileCache st)) batch);
          cache' = fold (\<lambda>chapterPath cache. cacheLoaded jszip cache chapterPath) started
                     (fileCache st)
      in \<lparr>fileCache = cache',
          archiveReads = archiveReads st @ started,
          assigned = assigned st @ map (assignContent extractContentByAnchor basePath cache') batch\<rparr>)"

definition batchSize :: nat where
  "batchSize = 10"

function loadBatches ::
  "(jsstring \<Rightarrow> jsstring \<Rightarrow> jsstring) \<Rightarrow> EpubArchive \<Rightarrow> jsstring \<Rightarrow> EpubChapter list \<Rightarrow> loaderState
     \<Rightarrow> loaderState" where
  "loadBatches extractContentByAnchor jszip basePath leafChapters st =
     (if leafChapters = [] then st
      else loadBatches extractContentByAnchor jszip basePath (drop batchSize leafChapters)
             (loadBatch extractContentByAnchor jszip basePath (take batchSize leafChapters) st))"
  by pat_completeness auto
termination
  by (relation "measure (\<lambda>(e, z, b, leafChapters, st). length leafChapters)")
     (auto simp: batchSize_def)

text \<open>
  The contents land in the tree: the leaf at depth-first position \<open>k\<close> is the \<open>k\<close>-th
  leaf processed.
\<close>

fun storeLeafContents :: "jsstring option list \<Rightarrow> nat \<Rightarrow> EpubChapter list \<Rightarrow> EpubChapter list" where
  "storeLeafContents written k [] = []"
| "storeLeafContents written k (EpubChapter i t h a c l cs # items) =
     (if cs = []
      then EpubChapter i t h a
             (if k < length written then (case written ! k of None \<Rightarrow> c | Some v \<Rightarrow> Some v) else c)
             l cs
             # storeLeafContents written (Suc k) items
      else EpubChapter i t h a c l (storeLeafContents written k cs)
             # storeLeafContents written (k + length (collectEpubLeaves cs)) items)"

text \<open>
  The chapters found by the navigation document and, when that yields none, by the NCX.
\<close>

definition parseNavigation ::
  "EpubArchive \<Rightarrow> jsstring \<Rightarrow> jsstring option \<Rightarrow> jsstring option \<Rightarrow> EpubChapter list" where
  "parseNavigation jszip basePath nav ncx =
     (let chapters0 = (case nav of None \<Rightarrow> [] | Some h \<Rightarrow> parseNav jszip (inBase basePath h))
      in (case ncx of
            None \<Rightarrow> chapters0
          | Some h \<Rightarrow> if chapters0 = [] then parseNcx jszip (inBase basePath h) else chapters0))"

definition extractEpubChapters ::
  "(jsstring \<Rightarrow> jsstring \<Rightarrow> jsstring) \<Rightarrow> EpubArchive \<Rightarrow> error + EpubChapter list" where
  "extractEpubChapters extractContentByAnchor jszip =
     (case parseContainer jszip of
        Inl err \<Rightarrow> Inl err
      | Inr opfPath \<Rightarrow>
         (case parseContentOpf jszip opfPath of
            Inl err \<Rightarrow> Inl err
          | Inr (basePath, nav, ncx) \<Rightarrow>
             (let chapters1 = parseNavigation jszip basePath nav ncx
              in if chapters1 = [] then Inl NoEpubToc
                 else
                   (let leafChapters = collectEpubLeaves chapters1;
                        st = loadBatches extractContentByAnchor jszip basePath leafChapters
                               \<lparr>fileCache = Map.empty, archiveReads = [], assigned = []\<rparr>
                    in Inr (storeLeafContents (assigned st) 0 chapters1)))))"

section \<open>File names (filenameUtils.ts)\<close>

text \<open>
  \<open>sanitizeFilename\<close>: path separators, the other characters a file name cannot hold and
  the control characters each become an underscore; then the name is trimmed, leading and
  trailing dots are removed, and at most 200 code units are kept.
\<close>

definition isPathSeparator :: "jschar \<Rightarrow> bool" where
  "isPathSeparator c = (c = codeUnit CHR ''/'' \<or> c = 0x5C)"

definition isIllegal :: "jschar \<Rightarrow> bool" where
  "isIllegal c = (c \<in> set (ascii ''<>:|?*'') \<or> c = 0x22)"

definition isControl :: "jschar \<Rightarrow> bool" where
  "isControl c = (c \<le> 0x1F)"

definition replaceBy :: "(jschar \<Rightarrow> bool) \<Rightarrow> jsstring \<Rightarrow> jsstring" where
  "replaceBy p s = map (\<lambda>c. if p c then codeUnit CHR ''_'' else c) s"

definition stripDots :: "jsstring \<Rightarrow> jsstring" where
  "stripDots s =
     rev (dropWhile (\<lambda>c. c = codeUnit CHR ''.'') (rev (dropWhile (\<lambda>c. c = codeUnit CHR ''.'') s)))"

definition sanitizeFilename :: "jsstring \<Rightarrow> jsstring" where
  "sanitizeFilename filename =
     take 200 (stripDots (trim
       (replaceBy isControl (replaceBy isIllegal (replaceBy isPathSeparator filename)))))"

definition buildHierarchicalFilename :: "nat \<Rightarrow> jsstring list \<Rightarrow> jsstring \<Rightarrow> jsstring \<Rightarrow> jsstring" where
  "buildHierarchicalFilename index parentTitles currentTitle extension =
     (let indexPrefix = padStart2 (decimal (index + 1));
          titleParts = map sanitizeFilename (parentTitles @ [currentTitle])
      in indexPrefix @ ascii ''_'' @ join (ascii ''_'') titleParts @ extension)"

section \<open>Selection and export planning (ChapterList.tsx, App.tsx)\<close>

text \<open>
  The interface \<open>Chapter\<close> of App.tsx: id, title, startPage, endPage, content, level,
  children; the three fields in the middle are optional. A start page is always a page
  number of the tree; an end page can also be \<open>Infinity\<close> (see \<open>pdfIntro\<close>).
\<close>

datatype Chapter =
  Chapter (cid: jsstring) (title: jsstring) (startPage: "int option") (endPage: "jsnum option")
    (content: "jsstring option") (level: nat) (children: "Chapter list")

datatype fileType = Pdf | Epub

datatype mergeMode = Separate | Merge

record ExportTask =
  name :: jsstring
  chapters :: "Chapter list"
  parentTitles :: "jsstring list"
  chapterId :: jsstring

text \<open>The traversals of the tree: all ids, the selected chapters, all descendants.\<close>

fun getAllChapterIds :: "Chapter list \<Rightarrow> jsstring list" where
  "getAllChapterIds [] = []"
| "getAllChapterIds (Chapter i t s e c l cs # chs) =
     i # (if cs \<noteq> [] then getAllChapterIds cs else []) @ getAllChapterIds chs"

fun findSelectedChapters :: "jsstring jsSet \<Rightarrow> Chapter list \<Rightarrow> Chapter list" where
  "findSelectedChapters selectedChapters [] = []"
| "findSelectedChapters selectedChapters (Chapter i t s e c l cs # items) =
     (if has selectedChapters i then [Chapter i t s e c l cs] else [])
     @ (if cs \<noteq> [] then findSelectedChapters selectedChapters cs else [])
     @ findSelectedChapters selectedChapters items"

fun getAllDescendants :: "Chapter \<Rightarrow> Chapter list" where
  "getAllDescendants (Chapter i t s e c l cs) =
     concat (map (\<lambda>child. child # getAllDescendants child) cs)"

text \<open>
  The comparator \<open>(a.startPage || 0) - (b.startPage || 0)\<close> for a PDF and the constant 0
  for an EPUB: a stable sort by start page, or no reordering at all.
\<close>

definition startPageOr0 :: "Chapter \<Rightarrow> int" where
  "startPageOr0 ch = (case startPage ch of Some p \<Rightarrow> p | None \<Rightarrow> 0)"

definition sortByStartPage :: "fileType \<Rightarrow> Chapter list \<Rightarrow> Chapter list" where
  "sortByStartPage fileType chs =
     (case fileType of Pdf \<Rightarrow> sort_key startPageOr0 chs | Epub \<Rightarrow> chs)"

definition startPageOrInfinity :: "Chapter \<Rightarrow> jsnum" where
  "startPageOrInfinity ch =
     (case startPage ch of Some p \<Rightarrow> (if p = 0 then Infinity else Num p) | None \<Rightarrow> Infinity)"

text \<open>
  The synthetic chapters for a parent's independent content. For a PDF the span runs from
  the parent's start page to the page before \<open>firstChildStartPage\<close>.
\<close>

definition pdfIntro :: "Chapter \<Rightarrow> jsnum \<Rightarrow> Chapter" where
  "pdfIntro chapter firstChildStartPage =
     Chapter (cid chapter @ ascii ''_intro'') (title chapter) (startPage chapter)
       (Some (minusOne firstChildStartPage)) None (level chapter) []"

definition epubIntro :: "Chapter \<Rightarrow> Chapter" where
  "epubIntro chapter =
     Chapter (cid chapter @ ascii ''_intro'') (title chapter) None None (content chapter)
       (level chapter) []"

text \<open>
  The planner's state: the set \<open>processed\<close> and the list \<open>exportTasks\<close>, both created by
  one call of \<open>handleExport\<close>. \<open>processChapter\<close> follows the source branch by branch.
\<close>

record plannerState =
  processed :: "jsstring jsSet"
  exportTasks :: "ExportTask list"

definition processChapter ::
  "fileType \<Rightarrow> jsstring jsSet \<Rightarrow> jsstring jsSet \<Rightarrow> Chapter \<Rightarrow> jsstring list \<Rightarrow> plannerState \<Rightarrow> plannerState" where
  "processChapter fileType selectedChapterIds mergedChapterIds chapter parentTitles' st =
    (if has (processed st) (cid chapter) then st
     else
      let hasChildren = (children chapter \<noteq> []) in
      if has mergedChapterIds (cid chapter) \<and> hasChildren then
        let allDescendants = getAllDescendants chapter;
            childrenToMerge = filter (\<lambda>ch. has selectedChapterIds (cid ch)) allDescendants
        in
        if childrenToMerge \<noteq> [] then
          let intro =
                (if fileType = Pdf \<and> truthyPage (startPage chapter) \<and> truthyNum (endPage chapter)
                 then
                   let firstChildStartPage = Math_min (map startPageOrInfinity childrenToMerge)
                   in (if pageLess (startPage chapter) firstChildStartPage
                       then [pdfIntro chapter firstChildStartPage] else [])
                 else if fileType = Epub \<and> truthyString (content chapter)
                 then [epubIntro chapter]
                 else []);
              chaptersInTask = intro @ sortByStartPage fileType childrenToMerge
          in st\<lparr>exportTasks := exportTasks st @
                   [\<lparr>name = title chapter, chapters = chaptersInTask,
                     parentTitles = parentTitles', chapterId = cid chapter\<rparr>],
                 processed := fold setAdd (map cid childrenToMerge) (setAdd (cid chapter) (processed st))\<rparr>
        else st
      else if has selectedChapterIds (cid chapter) then
        if hasChildren then
          let allDescendants = getAllDescendants chapter;
              selectedChildren = filter (\<lambda>ch. has selectedChapterIds (cid ch)) allDescendants;
              hasIndependentContent =
                (if fileType = Pdf \<and> truthyPage (startPage chapter) \<and> truthyNum (endPage chapter)
                    \<and> selectedChildren \<noteq> []
                 then pageLess (startPage chapter)
                        (Math_min (map startPageOrInfinity selectedChildren))
                 else if fileType = Epub \<and> truthyString (content chapter) then True
                 else False)
          in
          if hasIndependentContent then
            (let st' =
               (if fileType = Pdf \<and> truthyPage (startPage chapter) \<and> truthyNum (endPage chapter)
                then st\<lparr>exportTasks := exportTasks st @
                        [\<lparr>name = title chapter,
                          chapters = [pdfIntro chapter
                                        (Math_min (map startPageOrInfinity selectedChildren))],
                          parentTitles = parentTitles', chapterId = cid chapter\<rparr>]\<rparr>
                else if fileType = Epub \<and> truthyString (content chapter)
                then st\<lparr>exportTasks := exportTasks st @
                        [\<lparr>name = title chapter, chapters = [epubIntro chapter],
                          parentTitles = parentTitles', chapterId = cid chapter\<rparr>]\<rparr>
                else st)
             in st'\<lparr>processed := setAdd (cid chapter) (processed st')\<rparr>)
          else st
        else
          st\<lparr>exportTasks := exportTasks st @
                 [\<lparr>name = title chapter, chapters = [chapter],
                   parentTitles = parentTitles', chapterId = cid chapter\<rparr>],
               processed := setAdd (cid chapter) (processed st)\<rparr>
      else st)"

fun traverseChapters ::
  "fileType \<Rightarrow> jsstring jsSet \<Rightarrow> jsstring jsSet \<Rightarrow> Chapter list \<Rightarrow> jsstring list \<Rightarrow> plannerState \<Rightarrow> plannerState" where
  "traverseChapters fileType selectedChapterIds mergedChapterIds [] currentParentTitles st = st"
| "traverseChapters fileType selectedChapterIds mergedChapterIds (Chapter i t s e c l cs # chs)
     currentParentTitles st =
     (let st1 = processChapter fileType selectedChapterIds mergedChapterIds
                  (Chapter i t s e c l cs) currentParentTitles st;
          st2 = (if cs \<noteq> []
                 then traverseChapters fileType selectedChapterIds mergedChapterIds cs
                        (currentParentTitles @ [t]) st1
                 else st1)
      in traverseChapters fileType selectedChapterIds mergedChapterIds chs currentParentTitles st2)"


text \<open>The name of the single task of a full merge.\<close>

definition mergedName :: jsstring where
  "mergedName = [0x5408, 0x5E76, 0x7AE0, 0x8282]"

text \<open>
  \<open>handleExport\<close> of App.tsx up to the finished task list. It returns at once (\<open>None\<close>)
  when no file is loaded or nothing is selected.
\<close>

definition handleExport ::
  "bool \<Rightarrow> fileType \<Rightarrow> Chapter list \<Rightarrow> Chapter list \<Rightarrow> mergeMode \<Rightarrow> jsstring jsSet
     \<Rightarrow> ExportTask list option" where
  "handleExport hasFile fileType tree selectedChapters mode mergedChapterIds =
    (if \<not> hasFile \<or> selectedChapters = [] then None
     else
       let selectedChapterIds = newSet (map cid selectedChapters);
           allChapterIds = getAllChapterIds tree;
           isFullSelection = (length selectedChapters = length allChapterIds);
           sortedChapters = sortByStartPage fileType selectedChapters
       in if isFullSelection \<and> mode = Merge
          then Some [\<lparr>name = mergedName, chapters = sortedChapters, parentTitles = [],
                      chapterId = ascii ''merged''\<rparr>]
          else Some (exportTasks
                 (traverseChapters fileType selectedChapterIds mergedChapterIds tree []
                    \<lparr>processed = [], exportTasks = []\<rparr>)))"

text \<open>
  \<open>handleExport\<close> of ChapterList.tsx: the chapters whose id is in the selection set, in
  tree order, are handed to \<open>onExport\<close>, which is App's \<open>handleExport\<close>.
\<close>

definition ChapterList_handleExport ::
  "bool \<Rightarrow> fileType \<Rightarrow> Chapter list \<Rightarrow> jsstring jsSet \<Rightarrow> mergeMode \<Rightarrow> jsstring jsSet
     \<Rightarrow> ExportTask list option" where
  "ChapterList_handleExport hasFile fileType tree selectedChapters mode mergedChapters =
     handleExport hasFile fileType tree (findSelectedChapters selectedChapters tree) mode
       mergedChapters"

text \<open>
  The file name of each task: \<open>buildHierarchicalFilename(i, task.parentTitles, task.name)\<close>
  with the default extension, \<open>i\<close> the task's position in the list.
\<close>

definition exportFilenames :: "ExportTask list \<Rightarrow> jsstring list" where
  "exportFilenames tasks =
     map (\<lambda>(i, task). buildHierarchicalFilename i (parentTitles task) (name task) (ascii ''.pdf''))
       (enumerate 0 tasks)"

text \<open>
  \<open>setChapters(pdfChapters)\<close>: the chapters of a PDF as App.tsx holds them.
\<close>

fun toChapters :: "PdfChapter list \<Rightarrow> Chapter list" where
  "toChapters [] = []"
| "toChapters (PdfChapter i t s e l cs # items) =
     Chapter i t (Some s) (Some (Num e)) None l (toChapters cs) # toChapters items"

section \<open>Notions used to state the properties\<close>

text \<open>The pages of a chapter, and the leaves of a tree sorted by start page.\<close>

definition pageRange :: "PdfChapter \<Rightarrow> int set" where
  "pageRange c = {pdf_startPage c..pdf_endPage c}"

definition sortedLeaves :: "PdfChapter list \<Rightarrow> PdfChapter list" where
  "sortedLeaves tree = sort_key pdf_startPage (collectLeaves tree)"

text \<open>All nodes of a tree, parents before children.\<close>

fun allNodes :: "PdfChapter list \<Rightarrow> PdfChapter list" where
  "allNodes [] = []"
| "allNodes (PdfChapter i t s e l cs # items) =
     PdfChapter i t s e l cs # allNodes cs @ allNodes items"

text \<open>The leaf reached from a node by following last children.\<close>

function lastDescendant :: "PdfChapter \<Rightarrow> PdfChapter" where
  "lastDescendant (PdfChapter i t s e l cs) =
     (if cs = [] then PdfChapter i t s e l cs else lastDescendant (last cs))"
  by pat_completeness auto
termination
proof (relation "measure size")
  show "wf (measure size)" by simp
next
  fix i t s e l and cs :: "PdfChapter list"
  assume ne: "cs \<noteq> []"
  have "xs \<noteq> [] \<Longrightarrow> size (last xs) \<le> size_list size xs" for xs :: "PdfChapter list"
    by (induction xs) auto
  from this [OF ne] show "(last cs, PdfChapter i t s e l cs) \<in> measure size"
    by simp
qed

text \<open>A tree with every end page blanked: what is left is all that is not an end page.\<close>

fun forgetEndPages :: "PdfChapter list \<Rightarrow> PdfChapter list" where
  "forgetEndPages [] = []"
| "forgetEndPages (PdfChapter i t s e l cs # items) =
     PdfChapter i t s 0 l (forgetEndPages cs) # forgetEndPages items"

text \<open>
  A leaf after the write through its reference, a leaf with a given end page, and the
  sorted leaves with the end pages the loop gives them.
\<close>

definition writeEnd :: "(nat \<rightharpoonup> int) \<Rightarrow> nat \<times> PdfChapter \<Rightarrow> PdfChapter" where
  "writeEnd m p = (case p of (j, PdfChapter i t s e l cs) \<Rightarrow>
      PdfChapter i t s (case m j of Some e' \<Rightarrow> e' | None \<Rightarrow> e) l cs)"

definition withEnd :: "int \<Rightarrow> PdfChapter \<Rightarrow> PdfChapter" where
  "withEnd e' c = (case c of PdfChapter i t s e l cs \<Rightarrow> PdfChapter i t s e' l cs)"

fun resolvedLeaves :: "int \<Rightarrow> (nat \<times> PdfChapter) list \<Rightarrow> PdfChapter list" where
  "resolvedLeaves totalPages [] = []"
| "resolvedLeaves totalPages [(r, c)] = [withEnd totalPages c]"
| "resolvedLeaves totalPages ((r, c) # (r', n) # rest) =
     withEnd (pdf_startPage n - 1) c # resolvedLeaves totalPages ((r', n) # rest)"

text \<open>All chapters of a tree as App.tsx holds it, parents before children.\<close>

fun allChapters :: "Chapter list \<Rightarrow> Chapter list" where
  "allChapters [] = []"
| "allChapters (Chapter i t s e c l cs # chs) =
     Chapter i t s e c l cs # allChapters cs @ allChapters chs"

text \<open>The selected descendants of a chapter, and the earliest start page among them.\<close>

definition selectedDescendants :: "jsstring jsSet \<Rightarrow> Chapter \<Rightarrow> Chapter list" where
  "selectedDescendants sel ch = filter (\<lambda>d. has sel (cid d)) (getAllDescendants ch)"

definition firstSelectedStart :: "jsstring jsSet \<Rightarrow> Chapter \<Rightarrow> int" where
  "firstSelectedStart sel ch = Min (startPageOr0 ` set (selectedDescendants sel ch))"

text \<open>
  The parts of a target: what stands before the first \<open>#\<close>, and what stands between the
  first \<open>#\<close> and the second one (or the end of the target).
\<close>

definition beforeHash :: "jsstring \<Rightarrow> jsstring" where
  "beforeHash s = takeWhile (\<lambda>c. c \<noteq> codeUnit CHR ''#'') s"

definition afterHash :: "jsstring \<Rightarrow> jsstring" where
  "afterHash s = tl (dropWhile (\<lambda>c. c \<noteq> codeUnit CHR ''#'') s)"

section \<open>Example inputs\<close>

text \<open>
  A 30-page book whose outline is A (page 1) with sections A1 (page 1) and A2 (page 10),
  followed by B (page 20): the outline, the chapters as parsed, and the chapters as
  resolved.
\<close>

definition exOutline :: "OutlineItem list" where
  "exOutline =
     [OutlineItem (ascii ''A'') (Some 0)
        [OutlineItem (ascii ''A1'') (Some 0) [], OutlineItem (ascii ''A2'') (Some 9) []],
      OutlineItem (ascii ''B'') (Some 19) []]"

definition exParsed :: "PdfChapter list" where
  "exParsed =
     [PdfChapter (ascii ''chapter-0'') (ascii ''A'') 1 1 0
        [PdfChapter (ascii ''chapter-0-0'') (ascii ''A1'') 1 1 1 [],
         PdfChapter (ascii ''chapter-0-1'') (ascii ''A2'') 10 10 1 []],
      PdfChapter (ascii ''chapter-1'') (ascii ''B'') 20 20 0 []]"

definition exResolved :: "PdfChapter list" where
  "exResolved =
     [PdfChapter (ascii ''chapter-0'') (ascii ''A'') 1 19 0
        [PdfChapter (ascii ''chapter-0-0'') (ascii ''A1'') 1 9 1 [],
         PdfChapter (ascii ''chapter-0-1'') (ascii ''A2'') 10 19 1 []],
      PdfChapter (ascii ''chapter-1'') (ascii ''B'') 20 30 0 []]"

text \<open>The same book as App.tsx holds it after extraction, and its four chapters.\<close>

definition exA1 :: Chapter where
  "exA1 = Chapter (ascii ''chapter-0-0'') (ascii ''A1'') (Some 1) (Some (Num 9)) None 1 []"

definition exA2 :: Chapter where
  "exA2 = Chapter (ascii ''chapter-0-1'') (ascii ''A2'') (Some 10) (Some (Num 19)) None 1 []"

definition exA :: Chapter where
  "exA = Chapter (ascii ''chapter-0'') (ascii ''A'') (Some 1) (Some (Num 19)) None 0 [exA1, exA2]"

definition exB :: Chapter where
  "exB = Chapter (ascii ''chapter-1'') (ascii ''B'') (Some 20) (Some (Num 30)) None 0 []"

definition exTree :: "Chapter list" where
  "exTree = [exA, exB]"

text \<open>
  A 10-page book whose outline is P (page 1) with sections S1 (page 3) and S2 (page 6):
  P has two pages of its own before its first section.
\<close>

definition exS1 :: Chapter where
  "exS1 = Chapter (ascii ''chapter-0-0'') (ascii ''S1'') (Some 3) (Some (Num 5)) None 1 []"

definition exS2 :: Chapter where
  "exS2 = Chapter (ascii ''chapter-0-1'') (ascii ''S2'') (Some 6) (Some (Num 10)) None 1 []"

definition exP :: Chapter where
  "exP = Chapter (ascii ''chapter-0'') (ascii ''P'') (Some 1) (Some (Num 10)) None 0 [exS1, exS2]"

text \<open>
  A 10-page book whose outline lists pages out of order: P (page 1) with sections
  C1 (page 5) and L (page 1), followed by Q (page 1). The leaves sorted by start page are
  L, Q, C1, so L ends on page 0, and P, whose last descendant is L, ends on page 0 as well.
\<close>

definition exUnorderedOutline :: "OutlineItem list" where
  "exUnorderedOutline =
     [OutlineItem (ascii ''P'') (Some 0)
        [OutlineItem (ascii ''C1'') (Some 4) [], OutlineItem (ascii ''L'') (Some 0) []],
      OutlineItem (ascii ''Q'') (Some 0) []]"

definition exUnorderedResolved :: "PdfChapter list" where
  "exUnorderedResolved =
     [PdfChapter (ascii ''chapter-0'') (ascii ''P'') 1 0 0
        [PdfChapter (ascii ''chapter-0-0'') (ascii ''C1'') 5 10 1 [],
         PdfChapter (ascii ''chapter-0-1'') (ascii ''L'') 1 0 1 []],
      PdfChapter (ascii ''chapter-1'') (ascii ''Q'') 1 4 0 []]"

definition exUnorderedC1 :: Chapter where
  "exUnorderedC1 = Chapter (ascii ''chapter-0-0'') (ascii ''C1'') (Some 5) (Some (Num 10)) None 1 []"

definition exUnorderedL :: Chapter where
  "exUnorderedL = Chapter (ascii ''chapter-0-1'') (ascii ''L'') (Some 1) (Some (Num 0)) None 1 []"

definition exUnorderedP :: Chapter where
  "exUnorderedP =
     Chapter (ascii ''chapter-0'') (ascii ''P'') (Some 1) (Some (Num 0)) None 0 [exUnorderedC1, exUnorderedL]"

definition exUnorderedQ :: Chapter where
  "exUnorderedQ = Chapter (ascii ''chapter-1'') (ascii ''Q'') (Some 1) (Some (Num 4)) None 0 []"

text \<open>
  A 10-page book whose outline is A (page 1) containing N (page 3) containing L (page 5),
  followed by B (page 8).
\<close>

definition exNestedOutline :: "OutlineItem list" where
  "exNestedOutline =
     [OutlineItem (ascii ''A'') (Some 0) [OutlineItem (ascii ''N'') (Some 2) [OutlineItem (ascii ''L'') (Some 4) []]],
      OutlineItem (ascii ''B'') (Some 7) []]"

definition exL :: Chapter where
  "exL = Chapter (ascii ''chapter-0-0-0'') (ascii ''L'') (Some 5) (Some (Num 7)) None 2 []"

definition exN :: Chapter where
  "exN = Chapter (ascii ''chapter-0-0'') (ascii ''N'') (Some 3) (Some (Num 7)) None 1 [exL]"

definition exNestedA :: Chapter where
  "exNestedA = Chapter (ascii ''chapter-0'') (ascii ''A'') (Some 1) (Some (Num 7)) None 0 [exN]"

definition exNestedB :: Chapter where
  "exNestedB = Chapter (ascii ''chapter-1'') (ascii ''B'') (Some 8) (Some (Num 10)) None 0 []"

definition exNestedTree :: "Chapter list" where
  "exNestedTree = [exNestedA, exNestedB]"

text \<open>
  A 10-page book whose outline is the leaf K (page 1) followed by N (page 3) with the
  section L (page 5): K, the leaf before L, runs up to page 4.
\<close>

definition exLeafFirstOutline :: "OutlineItem list" where
  "exLeafFirstOutline =
     [OutlineItem (ascii ''K'') (Some 0) [],
      OutlineItem (ascii ''N'') (Some 2) [OutlineItem (ascii ''L'') (Some 4) []]]"

definition exLeafFirstK :: Chapter where
  "exLeafFirstK = Chapter (ascii ''chapter-0'') (ascii ''K'') (Some 1) (Some (Num 4)) None 0 []"

definition exLeafFirstN :: Chapter where
  "exLeafFirstN =
     Chapter (ascii ''chapter-1'') (ascii ''N'') (Some 3) (Some (Num 10)) None 0
       [Chapter (ascii ''chapter-1-0'') (ascii ''L'') (Some 5) (Some (Num 10)) None 1 []]"

text \<open>
  An EPUB whose navigation document lists two sections of one content document, and an
  EPUB whose navigation document has an empty list and whose NCX has one \<open>navPoint\<close>
  without a label.
\<close>

definition exArchive :: EpubArchive where
  "exArchive =
     \<lparr>containerFile = Some (ContainerXml (Some (Some (ascii ''OEBPS/content.opf'')))),
      opfFiles = [ascii ''OEBPS/content.opf'' \<mapsto> \<lparr>navHref = Some (ascii ''nav.xhtml''), ncxHref = None\<rparr>],
      navFiles = [ascii ''OEBPS/nav.xhtml'' \<mapsto>
                    Some [NavItem (Some (ascii ''Section 1'', ascii ''ch1.xhtml#s1'')) [],
                          NavItem (Some (ascii ''Section 2'', ascii ''ch1.xhtml#s2'')) []]],
      ncxFiles = Map.empty,
      textFiles = [ascii ''OEBPS/ch1.xhtml'' \<mapsto> (ascii ''<h1 id=s1>One</h1><h1 id=s2>Two</h1>'')]\<rparr>"

definition exEmptyArchive :: EpubArchive where
  "exEmptyArchive =
     \<lparr>containerFile = Some (ContainerXml (Some (Some (ascii ''content.opf'')))),
      opfFiles = [ascii ''content.opf'' \<mapsto> \<lparr>navHref = Some (ascii ''nav.xhtml''), ncxHref = Some (ascii ''toc.ncx'')\<rparr>],
      navFiles = [ascii ''nav.xhtml'' \<mapsto> Some []],
      ncxFiles = [ascii ''toc.ncx'' \<mapsto> Some [NavPoint None (Some (Some (ascii ''ch1.xhtml''))) []]],
      textFiles = [ascii ''ch1.xhtml'' \<mapsto> (ascii ''<p>text</p>'')]\<rparr>"

section \<open>The range resolver\<close>

lemma exOutline_parsed: "parseOutlineItems exOutline 0 (ascii ''chapter'') 0 = exParsed"
  by code_simp

lemma exParsed_resolved: "calculateEndPages exParsed 30 = exResolved"
  by code_simp

subsection \<open>Leaves, before and after\<close>

lemma collectLeaves_are_leaves: "c \<in> set (collectLeaves cs) \<Longrightarrow> pdf_children c = []"
  by (induction cs rule: collectLeaves.induct) (auto split: if_splits)

lemma storeLeafEndPages_Nil_iff [simp]: "storeLeafEndPages m k cs = [] \<longleftrightarrow> cs = []"
  by (cases "(m, k, cs)" rule: storeLeafEndPages.cases) auto

lemma collectLeaves_store:
  "collectLeaves (storeLeafEndPages m k cs) = map (writeEnd m) (enumerate k (collectLeaves cs))"
  by (induction m k cs rule: storeLeafEndPages.induct)
     (auto simp: writeEnd_def enumerate_append_eq)

lemma setParentEndPages_Nil_iff [simp]: "setParentEndPages cs = [] \<longleftrightarrow> cs = []"
  by (cases cs rule: setParentEndPages.cases) auto

lemma collectLeaves_setParent: "collectLeaves (setParentEndPages cs) = collectLeaves cs"
  by (induction cs rule: setParentEndPages.induct) (auto simp: Let_def)

lemma insort_key_map:
  "insort_key f (g x) (map g xs) = map g (insort_key (\<lambda>y. f (g y)) x xs)"
  by (induction xs) auto

lemma sort_key_map: "sort_key f (map g xs) = map g (sort_key (\<lambda>y. f (g y)) xs)"
  by (induction xs) (auto simp: insort_key_map)

lemma startPage_writeEnd [simp]: "pdf_startPage (writeEnd m p) = pdf_startPage (snd p)"
  by (cases p; cases "snd p") (auto simp: writeEnd_def)

lemma startPage_withEnd [simp]: "pdf_startPage (withEnd e c) = pdf_startPage c"
  by (cases c) (auto simp: withEnd_def)

lemma endPage_withEnd [simp]: "pdf_endPage (withEnd e c) = e"
  by (cases c) (auto simp: withEnd_def)

lemma writeEnd_Some: "m j = Some e \<Longrightarrow> writeEnd m (j, c) = withEnd e c"
  by (cases c) (auto simp: writeEnd_def withEnd_def)

lemma map_writeEnd_cong:
  "(\<And>p. p \<in> set xs \<Longrightarrow> m (fst p) = m' (fst p)) \<Longrightarrow> map (writeEnd m) xs = map (writeEnd m') xs"
proof (rule map_cong [OF refl])
  fix p assume "p \<in> set xs" and eq: "\<And>p. p \<in> set xs \<Longrightarrow> m (fst p) = m' (fst p)"
  then have "m (fst p) = m' (fst p)" by blast
  then show "writeEnd m p = writeEnd m' p"
    by (cases p) (simp add: writeEnd_def)
qed

lemma map_writeEnd_leafEndPages:
  "distinct (map fst S) \<Longrightarrow>
   map (writeEnd (map_of (leafEndPages t S))) S = resolvedLeaves t S"
proof (induction t S rule: leafEndPages.induct)
  case (1 t)
  then show ?case by simp
next
  case (2 t r c)
  then show ?case by (simp add: writeEnd_Some)
next
  case (3 t r c r' n rest)
  let ?A = "leafEndPages t ((r', n) # rest)"
  have "map (writeEnd (map_of ((r, pdf_startPage n - 1) # ?A))) ((r', n) # rest)
        = map (writeEnd (map_of ?A)) ((r', n) # rest)"
    using 3(2) by (intro map_writeEnd_cong) auto
  also have "\<dots> = resolvedLeaves t ((r', n) # rest)"
    using 3 by simp
  finally have tl: "map (writeEnd (map_of ((r, pdf_startPage n - 1) # ?A))) ((r', n) # rest)
        = resolvedLeaves t ((r', n) # rest)" .
  have hd: "writeEnd (map_of ((r, pdf_startPage n - 1) # ?A)) (r, c) = withEnd (pdf_startPage n - 1) c"
    by (rule writeEnd_Some) simp
  have "map (writeEnd (map_of (leafEndPages t ((r, c) # (r', n) # rest)))) ((r, c) # (r', n) # rest)
      = writeEnd (map_of ((r, pdf_startPage n - 1) # ?A)) (r, c)
        # map (writeEnd (map_of ((r, pdf_startPage n - 1) # ?A))) ((r', n) # rest)"
    by (simp del: map_of.simps)
  also have "\<dots> = resolvedLeaves t ((r, c) # (r', n) # rest)"
    unfolding hd tl by simp
  finally show ?case .
qed

lemma distinct_map_insort_key:
  "distinct (map g (insort_key f x xs)) = (g x \<notin> g ` set xs \<and> distinct (map g xs))"
  by (induction xs) (auto simp: set_insort_key)

lemma distinct_map_sort_key: "distinct (map g (sort_key f xs)) = distinct (map g xs)"
  by (induction xs) (auto simp: distinct_map_insort_key)

lemma distinct_fst_sortLeafChapters: "distinct (map fst (sortLeafChapters L))"
  by (simp add: sortLeafChapters_def distinct_map_sort_key)

lemma sortedLeaves_calculateEndPages:
  "sortedLeaves (calculateEndPages cs t) = resolvedLeaves t (sortLeafChapters (collectLeaves cs))"
proof -
  show ?thesis
    by (simp add: sortedLeaves_def calculateEndPages_def Let_def collectLeaves_setParent
        collectLeaves_store sort_key_map flip: sortLeafChapters_def [unfolded comp_def])
       (simp add: map_writeEnd_leafEndPages distinct_fst_sortLeafChapters)
qed


lemma length_resolvedLeaves [simp]: "length (resolvedLeaves t S) = length S"
  by (induction t S rule: resolvedLeaves.induct) auto

lemma startPages_resolvedLeaves:
  "map pdf_startPage (resolvedLeaves t S) = map (pdf_startPage \<circ> snd) S"
  by (induction t S rule: resolvedLeaves.induct) auto

lemma resolvedLeaves_adjacent:
  "Suc i < length S \<Longrightarrow>
   pdf_endPage (resolvedLeaves t S ! i) + 1 = pdf_startPage (resolvedLeaves t S ! Suc i)"
proof (induction t S arbitrary: i rule: resolvedLeaves.induct)
  case (3 t r c r' n rest)
  show ?case
  proof (cases i)
    case 0
    then show ?thesis by (cases rest) auto
  next
    case (Suc k)
    with 3 show ?thesis by simp
  qed
qed auto

lemma resolvedLeaves_Nil_iff [simp]: "resolvedLeaves t S = [] \<longleftrightarrow> S = []"
  by (cases "(t, S)" rule: resolvedLeaves.cases) auto

lemma resolvedLeaves_last:
  "S \<noteq> [] \<Longrightarrow> pdf_endPage (last (resolvedLeaves t S)) = t"
  by (induction t S rule: resolvedLeaves.induct) auto

lemma sorted_sortLeafChapters:
  "sorted (map (pdf_startPage \<circ> snd) (sortLeafChapters L))"
  by (simp add: sortLeafChapters_def)

lemma resolvedLeaves_end_less_start:
  assumes "sorted (map (pdf_startPage \<circ> snd) S)" and "i < j" and "j < length S"
  shows "pdf_endPage (resolvedLeaves t S ! i) < pdf_startPage (resolvedLeaves t S ! j)"
proof -
  let ?ls = "resolvedLeaves t S"
  have srt: "sorted (map pdf_startPage ?ls)"
    using assms(1) by (simp add: startPages_resolvedLeaves)
  have "Suc i < length S" using assms by simp
  then have "pdf_endPage (?ls ! i) + 1 = pdf_startPage (?ls ! Suc i)"
    by (rule resolvedLeaves_adjacent)
  moreover have "map pdf_startPage ?ls ! Suc i \<le> map pdf_startPage ?ls ! j"
    using srt assms by (intro sorted_nth_mono) auto
  then have "pdf_startPage (?ls ! Suc i) \<le> pdf_startPage (?ls ! j)"
    using assms by simp
  ultimately show ?thesis by linarith
qed

lemma resolvedLeaves_union:
  assumes "sorted (map (pdf_startPage \<circ> snd) S)" and "S \<noteq> []"
    and "\<forall>p\<in>set S. pdf_startPage (snd p) \<le> t"
  shows "(\<Union>l\<in>set (resolvedLeaves t S). pageRange l) = {pdf_startPage (snd (hd S))..t}"
  using assms
proof (induction t S rule: resolvedLeaves.induct)
  case (1 t)
  then show ?case by simp
next
  case (2 t r c)
  then show ?case by (simp add: pageRange_def)
next
  case (3 t r c r' n rest)
  have le: "pdf_startPage c \<le> pdf_startPage n" "pdf_startPage n \<le> t"
    using 3(2,4) by auto
  have "(\<Union>l\<in>set (resolvedLeaves t ((r', n) # rest)). pageRange l) = {pdf_startPage n..t}"
    using 3 by simp
  then have "(\<Union>l\<in>set (resolvedLeaves t ((r, c) # (r', n) # rest)). pageRange l)
      = {pdf_startPage c..pdf_startPage n - 1} \<union> {pdf_startPage n..t}"
    by (simp add: pageRange_def)
  also have "\<dots> = {pdf_startPage c..t}"
    using le by auto
  finally show ?case by simp
qed

lemma hd_resolvedLeaves:
  "S \<noteq> [] \<Longrightarrow> pdf_startPage (hd (resolvedLeaves t S)) = pdf_startPage (snd (hd S))"
  by (induction t S rule: resolvedLeaves.induct) auto

lemma sortLeafChapters_Nil_iff [simp]: "sortLeafChapters L = [] \<longleftrightarrow> L = []"
  by (metis length_0_conv length_enumerate length_sort sortLeafChapters_def)

lemma set_sortLeafChapters: "snd ` set (sortLeafChapters L) = set L"
proof -
  have "set (map snd (enumerate 0 L)) = set L" by (simp only: map_snd_enumerate)
  then have "snd ` set (enumerate 0 L) = set L" by (simp only: set_map)
  then show ?thesis by (simp add: sortLeafChapters_def)
qed


text \<open>
  Claim C2, as the code has it. Take a tree with at least one leaf, every leaf starting no
  later than the last page. After range resolution the leaves, sorted by start page, are
  contiguous (each ends on the page before the next one starts), their page ranges are
  pairwise disjoint, and together they cover exactly the pages from the first leaf's start
  page to \<open>totalPages\<close>. Pages before the first leaf's start page belong to no leaf.
\<close>

theorem leaf_ranges_contiguous:
  assumes "collectLeaves tree \<noteq> []"
    and "\<forall>l\<in>set (collectLeaves tree). pdf_startPage l \<le> totalPages"
  shows "let ls = sortedLeaves (calculateEndPages tree totalPages) in
     (\<forall>i. Suc i < length ls \<longrightarrow> pdf_endPage (ls ! i) + 1 = pdf_startPage (ls ! Suc i)) \<and>
     (\<forall>i j. i < j \<and> j < length ls \<longrightarrow> pageRange (ls ! i) \<inter> pageRange (ls ! j) = {}) \<and>
     \<Union> (pageRange ` set ls) = {pdf_startPage (hd ls)..totalPages}"
proof -
  let ?S = "sortLeafChapters (collectLeaves tree)"
  let ?ls = "resolvedLeaves totalPages ?S"
  have srt: "sorted (map (pdf_startPage \<circ> snd) ?S)" by (rule sorted_sortLeafChapters)
  have ne: "?S \<noteq> []" using assms(1) by simp
  have bound: "\<forall>p\<in>set ?S. pdf_startPage (snd p) \<le> totalPages"
    using assms(2) set_sortLeafChapters [of "collectLeaves tree"] by auto
  have a: "\<forall>i. Suc i < length ?ls \<longrightarrow> pdf_endPage (?ls ! i) + 1 = pdf_startPage (?ls ! Suc i)"
    by (simp add: resolvedLeaves_adjacent)
  have b: "\<forall>i j. i < j \<and> j < length ?ls \<longrightarrow> pageRange (?ls ! i) \<inter> pageRange (?ls ! j) = {}"
  proof (intro allI impI)
    fix i j assume "i < j \<and> j < length ?ls"
    then have "pdf_endPage (?ls ! i) < pdf_startPage (?ls ! j)"
      using resolvedLeaves_end_less_start [OF srt, of i j totalPages] by simp
    then show "pageRange (?ls ! i) \<inter> pageRange (?ls ! j) = {}"
      by (auto simp: pageRange_def)
  qed
  have c: "\<Union> (pageRange ` set ?ls) = {pdf_startPage (hd ?ls)..totalPages}"
    using resolvedLeaves_union [OF srt ne bound] ne by (simp add: hd_resolvedLeaves)
  show ?thesis
    unfolding sortedLeaves_calculateEndPages Let_def using a b c by blast
qed

theorem leaf_ranges_contiguous_witness:
  "collectLeaves exParsed \<noteq> [] \<and>
   list_all (\<lambda>l. pdf_startPage l \<le> 30) (collectLeaves exParsed) \<and>
   pdf_endPage (sortedLeaves (calculateEndPages exParsed 30) ! 0) + 1
     = pdf_startPage (sortedLeaves (calculateEndPages exParsed 30) ! 1) \<and>
   \<Union> (pageRange ` set (sortedLeaves (calculateEndPages exParsed 30))) = {1..30}"
proof -
  have h1: "collectLeaves exParsed \<noteq> []" by code_simp
  have h2: "\<forall>l\<in>set (collectLeaves exParsed). pdf_startPage l \<le> 30" by code_simp
  have len: "Suc 0 < length (sortedLeaves (calculateEndPages exParsed 30))" by code_simp
  have hd: "pdf_startPage (hd (sortedLeaves (calculateEndPages exParsed 30))) = 1" by code_simp
  from leaf_ranges_contiguous [OF h1 h2]
  have adj: "\<forall>i. Suc i < length (sortedLeaves (calculateEndPages exParsed 30)) \<longrightarrow>
        pdf_endPage (sortedLeaves (calculateEndPages exParsed 30) ! i) + 1
          = pdf_startPage (sortedLeaves (calculateEndPages exParsed 30) ! Suc i)"
    and cover: "\<Union> (pageRange ` set (sortedLeaves (calculateEndPages exParsed 30)))
        = {pdf_startPage (hd (sortedLeaves (calculateEndPages exParsed 30)))..30}"
    by (simp_all add: Let_def)
  from adj len have "pdf_endPage (sortedLeaves (calculateEndPages exParsed 30) ! 0) + 1
      = pdf_startPage (sortedLeaves (calculateEndPages exParsed 30) ! 1)"
    by (metis One_nat_def)
  with h1 h2 cover hd show ?thesis by (simp add: list_all_iff)
qed

text \<open>
  Claim C2 as stated fails: a 10-page book whose only outline entry points to page 3 has
  one leaf, with the range 3 to 10, so pages 1 and 2 are in no leaf's range.
\<close>

theorem leaf_ranges_cover_counterexample:
  "extractPdfChapters (Some [OutlineItem (ascii ''Preface'') (Some 2) []]) 10
     = Inr [PdfChapter (ascii ''chapter-0'') (ascii ''Preface'') 3 10 0 []] \<and>
   sortedLeaves [PdfChapter (ascii ''chapter-0'') (ascii ''Preface'') 3 10 0 []]
     = [PdfChapter (ascii ''chapter-0'') (ascii ''Preface'') 3 10 0 []] \<and>
   \<Union> (pageRange ` set (sortedLeaves [PdfChapter (ascii ''chapter-0'') (ascii ''Preface'') 3 10 0 []]))
     \<noteq> {1..10}"
proof -
  have a: "extractPdfChapters (Some [OutlineItem (ascii ''Preface'') (Some 2) []]) 10
     = Inr [PdfChapter (ascii ''chapter-0'') (ascii ''Preface'') 3 10 0 []]"
    by code_simp
  have b: "sortedLeaves [PdfChapter (ascii ''chapter-0'') (ascii ''Preface'') 3 10 0 []]
     = [PdfChapter (ascii ''chapter-0'') (ascii ''Preface'') 3 10 0 []]"
    by code_simp
  have "(1::int) \<in> {1..10}" by simp
  moreover have "(1::int) \<notin> \<Union> (pageRange ` set [PdfChapter (ascii ''chapter-0'') (ascii ''Preface'') 3 10 0 []])"
    by (simp add: pageRange_def)
  ultimately have "\<Union> (pageRange ` set [PdfChapter (ascii ''chapter-0'') (ascii ''Preface'') 3 10 0 []]) \<noteq> {1..10}"
    by blast
  with a b show ?thesis by simp
qed

subsection \<open>Parents\<close>

lemma getLastDescendantEndPage_eq:
  "getLastDescendantEndPage c = pdf_endPage (lastDescendant c)"
  by (induction c rule: getLastDescendantEndPage.induct) simp

lemma lastDescendant_is_leaf: "pdf_children (lastDescendant c) = []"
  by (induction c rule: lastDescendant.induct) simp

lemma setParentEndPages_parents:
  "x \<in> set (allNodes (setParentEndPages cs)) \<Longrightarrow> pdf_children x \<noteq> [] \<Longrightarrow>
   pdf_endPage x = pdf_endPage (lastDescendant x)"
  by (induction cs rule: setParentEndPages.induct)
     (auto simp: Let_def getLastDescendantEndPage_eq split: if_splits)

lemma forget_setParentEndPages: "forgetEndPages (setParentEndPages cs) = forgetEndPages cs"
  by (induction cs rule: setParentEndPages.induct) (auto simp: Let_def)

lemma forget_storeLeafEndPages: "forgetEndPages (storeLeafEndPages m k cs) = forgetEndPages cs"
  by (induction m k cs rule: storeLeafEndPages.induct) auto


text \<open>
  Claim C4. After range resolution every node with children has the end page of the leaf
  reached from it by following last children, and the resolved tree differs from the
  input in end pages only: every start page (and id, title, level, shape) is the input's.
\<close>

theorem parent_endPage_is_last_descendant:
  "(\<forall>x\<in>set (allNodes (calculateEndPages tree totalPages)).
      pdf_children x \<noteq> [] \<longrightarrow> pdf_endPage x = pdf_endPage (lastDescendant x)) \<and>
   forgetEndPages (calculateEndPages tree totalPages) = forgetEndPages tree"
  by (simp add: calculateEndPages_def Let_def setParentEndPages_parents
      forget_setParentEndPages forget_storeLeafEndPages)

theorem parent_endPage_is_last_descendant_witness:
  "PdfChapter (ascii ''chapter-0'') (ascii ''A'') 1 19 0
     [PdfChapter (ascii ''chapter-0-0'') (ascii ''A1'') 1 9 1 [], PdfChapter (ascii ''chapter-0-1'') (ascii ''A2'') 10 19 1 []]
     \<in> set (allNodes (calculateEndPages exParsed 30)) \<and>
   lastDescendant (PdfChapter (ascii ''chapter-0'') (ascii ''A'') 1 19 0
     [PdfChapter (ascii ''chapter-0-0'') (ascii ''A1'') 1 9 1 [], PdfChapter (ascii ''chapter-0-1'') (ascii ''A2'') 10 19 1 []])
     = PdfChapter (ascii ''chapter-0-1'') (ascii ''A2'') 10 19 1 [] \<and>
   pdf_endPage (PdfChapter (ascii ''chapter-0'') (ascii ''A'') 1 19 0
     [PdfChapter (ascii ''chapter-0-0'') (ascii ''A1'') 1 9 1 [], PdfChapter (ascii ''chapter-0-1'') (ascii ''A2'') 10 19 1 []])
     = pdf_endPage (lastDescendant (PdfChapter (ascii ''chapter-0'') (ascii ''A'') 1 19 0
     [PdfChapter (ascii ''chapter-0-0'') (ascii ''A1'') 1 9 1 [], PdfChapter (ascii ''chapter-0-1'') (ascii ''A2'') 10 19 1 []])) \<and>
   forgetEndPages (calculateEndPages exParsed 30) = forgetEndPages exParsed"
proof -
  let ?A = "PdfChapter (ascii ''chapter-0'') (ascii ''A'') 1 19 0
     [PdfChapter (ascii ''chapter-0-0'') (ascii ''A1'') 1 9 1 [], PdfChapter (ascii ''chapter-0-1'') (ascii ''A2'') 10 19 1 []]"
  have mem: "?A \<in> set (allNodes (calculateEndPages exParsed 30))" by code_simp
  have kids: "pdf_children ?A \<noteq> []" by simp
  have last: "lastDescendant ?A = PdfChapter (ascii ''chapter-0-1'') (ascii ''A2'') 10 19 1 []" by simp
  from parent_endPage_is_last_descendant [of exParsed 30] mem kids
  have "pdf_endPage ?A = pdf_endPage (lastDescendant ?A)"
    and "forgetEndPages (calculateEndPages exParsed 30) = forgetEndPages exParsed"
    by blast+
  with mem last show ?thesis by blast
qed

subsection \<open>Resolving twice\<close>

lemma length_collectLeaves_store [simp]:
  "length (collectLeaves (storeLeafEndPages m k cs)) = length (collectLeaves cs)"
  by (simp add: collectLeaves_store)

lemma store_store: "storeLeafEndPages m k (storeLeafEndPages m k cs) = storeLeafEndPages m k cs"
  by (induction m k cs rule: storeLeafEndPages.induct) (auto split: option.splits)

lemma setParent_store_setParent:
  "setParentEndPages (storeLeafEndPages m k (setParentEndPages cs))
   = setParentEndPages (storeLeafEndPages m k cs)"
  by (induction m k cs rule: storeLeafEndPages.induct)
     (auto simp: Let_def collectLeaves_setParent)

lemma leafEndPages_map:
  "(\<And>p. fst (h p) = fst p \<and> pdf_startPage (snd (h p)) = pdf_startPage (snd p)) \<Longrightarrow>
   leafEndPages t (map h S) = leafEndPages t S"
proof (induction t S rule: leafEndPages.induct)
  case (1 t)
  then show ?case by simp
next
  case (2 t r c)
  then show ?case by (cases "h (r, c)") (metis fst_conv leafEndPages.simps(2) list.simps(8,9))
next
  case (3 t r c r' n rest)
  obtain a b where h1: "h (r, c) = (a, b)" by (cases "h (r, c)")
  obtain a' b' where h2: "h (r', n) = (a', b')" by (cases "h (r', n)")
  have "a = r" "a' = r'" "pdf_startPage b' = pdf_startPage n"
    using 3(2) [of "(r, c)"] 3(2) [of "(r', n)"] h1 h2 by auto
  moreover have "leafEndPages t (map h ((r', n) # rest)) = leafEndPages t ((r', n) # rest)"
    using 3 by blast
  ultimately show ?case using h1 h2 by simp
qed

lemma enumerate_map_writeEnd:
  "enumerate k (map (writeEnd m) (enumerate k L))
   = map (\<lambda>p. (fst p, writeEnd m p)) (enumerate k L)"
  by (induction L arbitrary: k) auto

lemma leafEndPages_resolved_leaves:
  "leafEndPages t (sortLeafChapters (map (writeEnd m) (enumerate 0 L)))
   = leafEndPages t (sortLeafChapters L)"
proof -
  have "sortLeafChapters (map (writeEnd m) (enumerate 0 L))
      = map (\<lambda>p. (fst p, writeEnd m p)) (sortLeafChapters L)"
    by (simp add: sortLeafChapters_def enumerate_map_writeEnd sort_key_map comp_def)
  then show ?thesis by (simp add: leafEndPages_map)
qed


text \<open>
  Claim C9. Resolving an already resolved tree again, with the same number of pages,
  returns the same tree: every start page and every end page is unchanged.
\<close>

theorem calculateEndPages_idempotent:
  "calculateEndPages (calculateEndPages tree totalPages) totalPages
   = calculateEndPages tree totalPages"
  by (simp add: calculateEndPages_def Let_def collectLeaves_setParent collectLeaves_store
      leafEndPages_resolved_leaves setParent_store_setParent store_store)

theorem calculateEndPages_idempotent_witness:
  "calculateEndPages (calculateEndPages exParsed 30) 30 = exResolved"
  using calculateEndPages_idempotent [of exParsed 30] exParsed_resolved by simp

section \<open>Export planning\<close>

lemma exResolved_as_chapters: "toChapters exResolved = exTree"
  by code_simp

lemma exUnordered_extracted:
  "extractPdfChapters (Some exUnorderedOutline) 10 = Inr exUnorderedResolved"
  by code_simp

lemma exUnordered_as_chapters:
  "toChapters exUnorderedResolved = [exUnorderedP, exUnorderedQ]"
  by code_simp

lemma exNested_extracted:
  "map_sum id toChapters (extractPdfChapters (Some exNestedOutline) 10) = Inr exNestedTree"
  by code_simp

subsection \<open>Full selection in merge mode\<close>

lemma has_newSet: "has (newSet xs) x \<longleftrightarrow> x \<in> set xs"
proof -
  have "set (fold setAdd xs acc) = set xs \<union> set acc" for acc :: "'a list"
    by (induction xs arbitrary: acc) (auto simp: setAdd_def)
  then show ?thesis by (simp add: newSet_def has_def)
qed

lemma length_getAllChapterIds: "length (getAllChapterIds tree) = length (allChapters tree)"
  by (induction tree rule: allChapters.induct) auto

lemma getAllChapterIds_eq: "getAllChapterIds tree = map cid (allChapters tree)"
  by (induction tree rule: allChapters.induct) auto

lemma findSelectedChapters_all:
  "set (getAllChapterIds tree) \<subseteq> set sel \<Longrightarrow> findSelectedChapters sel tree = allChapters tree"
  by (induction tree rule: allChapters.induct) (auto simp: has_def)

text \<open>
  What the planner does for a tree that is not empty when the selection holds every id of
  the tree and the mode is merge: it emits one task, named generically and with no parent
  titles, whatever the merge flags, and the content units of that task are all chapters
  of the tree, parents as well as leaves.
\<close>

lemma full_selection_merge_single_task:
  assumes "tree \<noteq> []" and "set (getAllChapterIds tree) \<subseteq> set selectedIds"
  shows "ChapterList_handleExport True fileType tree selectedIds Merge mergedIds =
           Some [\<lparr>name = mergedName, chapters = sortByStartPage fileType (allChapters tree),
                  parentTitles = [], chapterId = ascii ''merged''\<rparr>]"
proof -
  have "allChapters tree \<noteq> []" using assms(1) by (cases tree rule: allChapters.cases) auto
  then show ?thesis
    using assms(2)
    by (simp add: ChapterList_handleExport_def handleExport_def findSelectedChapters_all
        length_getAllChapterIds Let_def)
qed

text \<open>
  Claim C1 fails on the code. With every chapter of the example book selected and the mode
  merge, the single task holds the parent A (pages 1 to 19) next to its own sections A1
  (pages 1 to 9) and A2 (pages 10 to 19): a chapter that is not a leaf is a content unit,
  and since the export copies the whole page range of every unit, the pages of A1 and A2
  come out twice. The merge-flag branch of the same planner gives a parent nothing but
  the pages before its first selected descendant.
\<close>

theorem full_selection_merge_emits_parent:
  "ChapterList_handleExport True Pdf exTree
       [ascii ''chapter-0'', ascii ''chapter-0-0'', ascii ''chapter-0-1'', ascii ''chapter-1''] Merge []
     = Some [\<lparr>name = mergedName, chapters = [exA, exA1, exA2, exB], parentTitles = [],
              chapterId = ascii ''merged''\<rparr>] \<and>
   children exA = [exA1, exA2]"
  by code_simp

subsection \<open>A merge-flagged parent\<close>

lemma length_findSelectedChapters_le:
  "length (findSelectedChapters sel tree) \<le> length (allChapters tree)"
  by (induction tree rule: allChapters.induct) auto

lemma findSelectedChapters_unselected:
  "x \<in> set (allChapters tree) \<Longrightarrow> \<not> has sel (cid x) \<Longrightarrow>
   length (findSelectedChapters sel tree) < length (allChapters tree)"
proof (induction tree rule: allChapters.induct)
  case 1
  then show ?case by simp
next
  case (2 i t s e c l cs chs)
  note IH = "2.IH" and prems = "2.prems"
  have a: "length (findSelectedChapters sel cs) \<le> length (allChapters cs)"
    and b: "length (findSelectedChapters sel chs) \<le> length (allChapters chs)"
    by (rule length_findSelectedChapters_le)+
  consider (self) "x = Chapter i t s e c l cs" | (kids) "x \<in> set (allChapters cs)"
    | (rest) "x \<in> set (allChapters chs)"
    using prems(1) by auto
  then show ?case
  proof cases
    case self
    with prems(2) a b show ?thesis by auto
  next
    case kids
    then have "cs \<noteq> []" by auto
    with kids prems(2) IH(1) have "length (findSelectedChapters sel cs) < length (allChapters cs)"
      by blast
    with b show ?thesis by auto
  next
    case rest
    with prems(2) IH(2) have "length (findSelectedChapters sel chs) < length (allChapters chs)"
      by blast
    with a show ?thesis by auto
  qed
qed


lemma truthyPage_iff: "truthyPage x \<longleftrightarrow> (\<exists>p. x = Some p \<and> p \<noteq> 0)"
  by (cases x) auto

lemma Math_min_startPages:
  assumes "ds \<noteq> []" and "\<forall>d\<in>set ds. truthyPage (startPage d)"
  shows "Math_min (map startPageOrInfinity ds) = Num (Min (startPageOr0 ` set ds))"
  using assms
proof (induction ds)
  case Nil
  then show ?case by simp
next
  case (Cons d ds)
  from Cons.prems obtain q where q: "startPage d = Some q" "q \<noteq> 0"
    by (auto simp: truthyPage_iff)
  then have d: "startPageOrInfinity d = Num q" "startPageOr0 d = q"
    by (simp_all add: startPageOrInfinity_def startPageOr0_def)
  show ?case
  proof (cases "ds = []")
    case True
    with d show ?thesis by (simp add: Math_min_def)
  next
    case False
    with Cons have "Math_min (map startPageOrInfinity ds) = Num (Min (startPageOr0 ` set ds))"
      by simp
    then have "Math_min (map startPageOrInfinity (d # ds))
        = Num (min q (Min (startPageOr0 ` set ds)))"
      using d by (simp add: Math_min_def)
    also have "min q (Min (startPageOr0 ` set ds)) = Min (startPageOr0 ` set (d # ds))"
      using False d by simp
    finally show ?thesis .
  qed
qed

text \<open>
  Claim C3, as the code has it. Let a chapter of a PDF that is not yet processed be
  merge-flagged, have children and at least one selected descendant. Then one task is
  emitted, named after the chapter, whose content units are the selected descendants
  sorted by start page, with or without a synthetic chapter in front of them.
  When the chapter's start page and end page are present and not zero (and the selected
  descendants have start pages, as every chapter of a PDF has), the synthetic chapter
  (id suffixed \<open>_intro\<close>), for the pages from the chapter's start page to the page before
  the earliest selected descendant, is there exactly when the chapter starts before that
  descendant. When the chapter's start page or end page is missing or zero, it is not
  there.
\<close>

theorem merge_flagged_parent_intro:
  assumes "\<not> has (processed st) (cid ch)" and "has mergedIds (cid ch)" and "children ch \<noteq> []"
    and "selectedDescendants sel ch \<noteq> []"
  shows "(startPage ch = Some p \<and> p \<noteq> 0 \<and> truthyNum (endPage ch) \<and>
          (\<forall>d\<in>set (selectedDescendants sel ch). truthyPage (startPage d)) \<longrightarrow>
          exportTasks (processChapter Pdf sel mergedIds ch pts st) =
            exportTasks st @
            [\<lparr>name = title ch,
              chapters =
                (if p < firstSelectedStart sel ch
                 then [Chapter (cid ch @ ascii ''_intro'') (title ch) (Some p)
                         (Some (Num (firstSelectedStart sel ch - 1))) None (level ch) []]
                 else [])
                @ sort_key startPageOr0 (selectedDescendants sel ch),
              parentTitles = pts, chapterId = cid ch\<rparr>]) \<and>
         (\<not> truthyPage (startPage ch) \<or> \<not> truthyNum (endPage ch) \<longrightarrow>
          exportTasks (processChapter Pdf sel mergedIds ch pts st) =
            exportTasks st @
            [\<lparr>name = title ch,
              chapters = sort_key startPageOr0 (selectedDescendants sel ch),
              parentTitles = pts, chapterId = cid ch\<rparr>])"
proof (intro conjI impI)
  assume a: "startPage ch = Some p \<and> p \<noteq> 0 \<and> truthyNum (endPage ch) \<and>
          (\<forall>d\<in>set (selectedDescendants sel ch). truthyPage (startPage d))"
  then have "\<forall>d\<in>set (selectedDescendants sel ch). truthyPage (startPage d)" by blast
  with assms(4) have "Math_min (map startPageOrInfinity (selectedDescendants sel ch))
           = Num (Min (startPageOr0 ` set (selectedDescendants sel ch)))"
    by (rule Math_min_startPages)
  then have m: "Math_min (map startPageOrInfinity (selectedDescendants sel ch))
           = Num (firstSelectedStart sel ch)"
    by (simp add: firstSelectedStart_def)
  show "exportTasks (processChapter Pdf sel mergedIds ch pts st) =
            exportTasks st @
            [\<lparr>name = title ch,
              chapters =
                (if p < firstSelectedStart sel ch
                 then [Chapter (cid ch @ ascii ''_intro'') (title ch) (Some p)
                         (Some (Num (firstSelectedStart sel ch - 1))) None (level ch) []]
                 else [])
                @ sort_key startPageOr0 (selectedDescendants sel ch),
              parentTitles = pts, chapterId = cid ch\<rparr>]"
    using assms a m
    by (simp add: processChapter_def Let_def sortByStartPage_def pdfIntro_def
        selectedDescendants_def [symmetric])
next
  assume "\<not> truthyPage (startPage ch) \<or> \<not> truthyNum (endPage ch)"
  then show "exportTasks (processChapter Pdf sel mergedIds ch pts st) =
            exportTasks st @
            [\<lparr>name = title ch,
              chapters = sort_key startPageOr0 (selectedDescendants sel ch),
              parentTitles = pts, chapterId = cid ch\<rparr>]"
    using assms
    by (auto simp: processChapter_def Let_def sortByStartPage_def
        selectedDescendants_def [symmetric])
qed

theorem merge_flagged_parent_intro_witness:
  "\<not> has (processed \<lparr>processed = [], exportTasks = []\<rparr>) (cid exP) \<and>
   has [ascii ''chapter-0''] (cid exP) \<and> children exP \<noteq> [] \<and>
   selectedDescendants [ascii ''chapter-0-0'', ascii ''chapter-0-1''] exP \<noteq> [] \<and>
   list_all (\<lambda>d. truthyPage (startPage d))
     (selectedDescendants [ascii ''chapter-0-0'', ascii ''chapter-0-1''] exP) \<and>
   startPage exP = Some 1 \<and> truthyNum (endPage exP) \<and>
   firstSelectedStart [ascii ''chapter-0-0'', ascii ''chapter-0-1''] exP = 3 \<and>
   exportTasks (processChapter Pdf [ascii ''chapter-0-0'', ascii ''chapter-0-1''] [ascii ''chapter-0''] exP []
                  \<lparr>processed = [], exportTasks = []\<rparr>)
     = [\<lparr>name = ascii ''P'',
         chapters = [Chapter (ascii ''chapter-0_intro'') (ascii ''P'') (Some 1) (Some (Num 2)) None 0 [],
                     exS1, exS2],
         parentTitles = [], chapterId = ascii ''chapter-0''\<rparr>] \<and>
   \<not> has (processed \<lparr>processed = [], exportTasks = []\<rparr>) (cid exUnorderedP) \<and>
   has [ascii ''chapter-0''] (cid exUnorderedP) \<and> children exUnorderedP \<noteq> [] \<and>
   selectedDescendants [ascii ''chapter-0-0''] exUnorderedP = [exUnorderedC1] \<and>
   endPage exUnorderedP = Some (Num 0) \<and>
   exportTasks (processChapter Pdf [ascii ''chapter-0-0''] [ascii ''chapter-0''] exUnorderedP []
                  \<lparr>processed = [], exportTasks = []\<rparr>)
     = [\<lparr>name = ascii ''P'', chapters = [exUnorderedC1], parentTitles = [],
         chapterId = ascii ''chapter-0''\<rparr>]"
proof -
  let ?sel = "[ascii ''chapter-0-0'', ascii ''chapter-0-1'']"
  let ?st = "\<lparr>processed = [], exportTasks = []\<rparr>"
  have h1: "\<not> has (processed ?st) (cid exP)" by code_simp
  have h2: "has [ascii ''chapter-0''] (cid exP)" by code_simp
  have h3: "children exP \<noteq> []" by code_simp
  have h4: "selectedDescendants ?sel exP \<noteq> []" by code_simp
  have h5: "\<forall>d\<in>set (selectedDescendants ?sel exP). truthyPage (startPage d)" by code_simp
  have h6: "startPage exP = Some 1" by code_simp
  have h8: "truthyNum (endPage exP)" by code_simp
  have first: "firstSelectedStart ?sel exP = 3"
    by (simp add: firstSelectedStart_def selectedDescendants_def exP_def exS1_def exS2_def
        has_def startPageOr0_def)
  have facts: "title exP = ascii ''P''" "cid exP = ascii ''chapter-0''" "level exP = 0"
    "sort_key startPageOr0 (selectedDescendants ?sel exP) = [exS1, exS2]"
    by code_simp+
  from merge_flagged_parent_intro [OF h1 h2 h3 h4, of 1 "[]"] h5 h6 h8
  have one: "exportTasks (processChapter Pdf ?sel [ascii ''chapter-0''] exP [] ?st)
     = [\<lparr>name = ascii ''P'',
         chapters = [Chapter (ascii ''chapter-0_intro'') (ascii ''P'') (Some 1) (Some (Num 2)) None 0 [],
                     exS1, exS2],
         parentTitles = [], chapterId = ascii ''chapter-0''\<rparr>]"
    unfolding first facts by simp
  have g1: "\<not> has (processed ?st) (cid exUnorderedP)" by code_simp
  have g2: "has [ascii ''chapter-0''] (cid exUnorderedP)" by code_simp
  have g3: "children exUnorderedP \<noteq> []" by code_simp
  have g4: "selectedDescendants [ascii ''chapter-0-0''] exUnorderedP = [exUnorderedC1]" by code_simp
  then have g4': "selectedDescendants [ascii ''chapter-0-0''] exUnorderedP \<noteq> []" by simp
  have g5: "endPage exUnorderedP = Some (Num 0)" by code_simp
  then have g6: "\<not> truthyNum (endPage exUnorderedP)" by simp
  have facts': "title exUnorderedP = ascii ''P''" "cid exUnorderedP = ascii ''chapter-0''" by code_simp+
  from merge_flagged_parent_intro [OF g1 g2 g3 g4', of 1 "[]"] g6
  have two: "exportTasks (processChapter Pdf [ascii ''chapter-0-0''] [ascii ''chapter-0''] exUnorderedP []
                  ?st)
     = [\<lparr>name = ascii ''P'', chapters = [exUnorderedC1], parentTitles = [],
         chapterId = ascii ''chapter-0''\<rparr>]"
    unfolding g4 facts' by simp
  from h1 h2 h3 h4 h5 h6 h8 first one g1 g2 g3 g4 g5 two show ?thesis
    by (simp add: list_all_iff)
qed

text \<open>
  Claim C3 as stated fails: in the book with the out-of-order outline, P starts on page 1
  and its only selected descendant C1 starts on page 5, but P's resolved end page is 0,
  which the planner's test \<open>chapter.startPage && chapter.endPage\<close> takes for a missing
  one: the task for the merge-flagged P holds C1 alone, with no unit for pages 1 to 4.
\<close>

theorem merge_flagged_parent_intro_counterexample:
  "extractPdfChapters (Some exUnorderedOutline) 10 = Inr exUnorderedResolved \<and>
   ChapterList_handleExport True Pdf (toChapters exUnorderedResolved) [ascii ''chapter-0-0'']
       Separate [ascii ''chapter-0'']
     = Some [\<lparr>name = ascii ''P'',
              chapters = [Chapter (ascii ''chapter-0-0'') (ascii ''C1'') (Some 5) (Some (Num 10)) None 1 []],
              parentTitles = [], chapterId = ascii ''chapter-0''\<rparr>]"
  by code_simp

subsection \<open>A selected parent with no selected descendant\<close>

lemma processChapter_nothing_selected_below:
  assumes "children n \<noteq> []" and "selectedDescendants sel n = []"
  shows "processChapter Pdf sel mergedIds n pts st = st"
  using assms by (simp add: processChapter_def Let_def selectedDescendants_def)

lemma set_sortByStartPage [simp]: "set (sortByStartPage ft xs) = set xs"
  by (cases ft) (simp_all add: sortByStartPage_def)

lemma processChapter_tasks:
  "exportTasks (processChapter ft sel mergedIds m pts st) = exportTasks st \<or>
   (\<exists>t. exportTasks (processChapter ft sel mergedIds m pts st) = exportTasks st @ [t] \<and>
        chapterId t = cid m \<and>
        (\<forall>u\<in>set (chapters t).
            (children u = [] \<and> (u = m \<or> cid u = cid m @ ascii ''_intro'')) \<or>
            (has mergedIds (cid m) \<and> u \<in> set (getAllDescendants m))))"
  by (auto simp: processChapter_def Let_def pdfIntro_def epubIntro_def)

lemma getAllDescendants_eq: "getAllDescendants n = allChapters (children n)"
proof (induction n rule: getAllDescendants.induct)
  case (1 i t s e c l cs)
  have "concat (map (\<lambda>child. child # getAllDescendants child) xs) = allChapters xs"
    if "set xs \<subseteq> set cs" for xs
    using that
  proof (induction xs)
    case Nil
    then show ?case by simp
  next
    case (Cons x xs)
    then have "getAllDescendants x = allChapters (children x)" using 1 by simp
    with Cons show ?case by (cases x) simp
  qed
  then show ?case by simp
qed

lemma allChapters_children_subset:
  "n \<in> set (allChapters tree) \<Longrightarrow> set (allChapters (children n)) \<subseteq> set (allChapters tree)"
  by (induction tree rule: allChapters.induct) auto

lemma findSelectedChapters_member:
  "x \<in> set (allChapters tree) \<Longrightarrow> has sel (cid x) \<Longrightarrow>
   x \<in> set (findSelectedChapters sel tree)"
  by (induction tree rule: allChapters.induct) auto

lemma findSelectedChapters_selected:
  "x \<in> set (findSelectedChapters sel tree) \<Longrightarrow> has sel (cid x) \<and> x \<in> set (allChapters tree)"
  by (induction tree rule: allChapters.induct) (auto split: if_splits)

lemma has_selectedChapterIds:
  "has (newSet (map cid (findSelectedChapters sel tree))) i \<longleftrightarrow>
   has sel i \<and> i \<in> set (getAllChapterIds tree)"
proof -
  let ?F = "findSelectedChapters sel tree"
  have "has (newSet (map cid ?F)) i \<longleftrightarrow> i \<in> cid ` set ?F"
    by (simp add: has_newSet)
  also have "\<dots> \<longleftrightarrow> has sel i \<and> i \<in> cid ` set (allChapters tree)"
  proof
    assume "i \<in> cid ` set ?F"
    then obtain x where x: "x \<in> set ?F" "i = cid x" by blast
    from findSelectedChapters_selected [OF x(1)] x(2)
    show "has sel i \<and> i \<in> cid ` set (allChapters tree)" by blast
  next
    assume a: "has sel i \<and> i \<in> cid ` set (allChapters tree)"
    then obtain x where x: "x \<in> set (allChapters tree)" "i = cid x" by blast
    with a have "has sel (cid x)" by simp
    from findSelectedChapters_member [OF x(1) this] x(2)
    show "i \<in> cid ` set ?F" by blast
  qed
  finally show ?thesis by (simp add: getAllChapterIds_eq)
qed

lemma traverseChapters_invariant:
  assumes "\<And>m pts st. m \<in> set (allChapters tree) \<Longrightarrow> Q st \<Longrightarrow>
                   Q (processChapter ft sel mergedIds m pts st)"
    and "set (allChapters chs) \<subseteq> set (allChapters tree)" and "Q st"
  shows "Q (traverseChapters ft sel mergedIds chs pts st)"
  using assms
proof (induction ft sel mergedIds chs pts st rule: traverseChapters.induct)
  case (1 ft sel mergedIds pts st)
  then show ?case by simp
next
  case (2 ft sel mergedIds i t s e c l cs chs pts st)
  note step = "2.prems"(1)
  let ?m = "Chapter i t s e c l cs"
  let ?st1 = "processChapter ft sel mergedIds ?m pts st"
  let ?st2 = "if cs \<noteq> [] then traverseChapters ft sel mergedIds cs (pts @ [t]) ?st1 else ?st1"
  have sub: "?m \<in> set (allChapters tree)" "set (allChapters cs) \<subseteq> set (allChapters tree)"
    "set (allChapters chs) \<subseteq> set (allChapters tree)"
    using "2.prems"(2) by simp_all
  have q1: "Q ?st1" using sub(1) "2.prems"(3) by (rule step)
  have q2: "Q ?st2"
  proof (cases "cs = []")
    case True
    with q1 show ?thesis by simp
  next
    case False
    have "Q (traverseChapters ft sel mergedIds cs (pts @ [t]) ?st1)"
      using refl False step sub(2) q1 by (rule "2.IH"(1))
    with False show ?thesis by simp
  qed
  have "Q (traverseChapters ft sel mergedIds chs pts ?st2)"
    using refl refl step sub(3) q2 by (rule "2.IH"(2))
  then show ?case by (simp add: Let_def)
qed

text \<open>
  Claim C10, as the code has it. In a PDF tree with distinct ids, a selected chapter that
  has children but no selected descendant gets no task of its own, merge-flagged or not:
  no task carries its id, and (when no chapter of the tree has the id that its \<open>_intro\<close>
  unit would have) no content unit of any task has that id. The chapter itself is a
  content unit of no task either, unless a merge-flagged ancestor takes it in as one of its
  selected descendants. This says nothing of the chapter's pages: they can lie in the
  page range of another unit.
\<close>

theorem selected_parent_without_selected_descendants:
  assumes dist: "distinct (getAllChapterIds tree)"
    and n: "n \<in> set (allChapters tree)" "children n \<noteq> []" "has selectedIds (cid n)"
    and none: "\<forall>d\<in>set (getAllDescendants n). \<not> has selectedIds (cid d)"
  shows "\<exists>tasks. ChapterList_handleExport True Pdf tree selectedIds mode mergedIds = Some tasks \<and>
           (\<forall>t\<in>set tasks. chapterId t \<noteq> cid n) \<and>
           (cid n @ ascii ''_intro'' \<notin> set (getAllChapterIds tree) \<longrightarrow>
            (\<forall>t\<in>set tasks. \<forall>u\<in>set (chapters t). cid u \<noteq> cid n @ ascii ''_intro'')) \<and>
           ((\<forall>m\<in>set (allChapters tree).
                n \<in> set (getAllDescendants m) \<longrightarrow> \<not> has mergedIds (cid m)) \<longrightarrow>
            (\<forall>t\<in>set tasks. n \<notin> set (chapters t)))"
proof -
  let ?selected = "findSelectedChapters selectedIds tree"
  let ?ids = "newSet (map cid ?selected)"
  let ?free = "\<forall>m\<in>set (allChapters tree). n \<in> set (getAllDescendants m) \<longrightarrow> \<not> has mergedIds (cid m)"
  let ?fresh = "cid n @ ascii ''_intro'' \<notin> set (getAllChapterIds tree)"
  define Q where "Q st \<longleftrightarrow>
      (\<forall>t\<in>set (exportTasks st). chapterId t \<noteq> cid n \<and>
          (?fresh \<longrightarrow> (\<forall>u\<in>set (chapters t). cid u \<noteq> cid n @ ascii ''_intro'')) \<and>
          (?free \<longrightarrow> n \<notin> set (chapters t)))"
    for st :: plannerState
  have inj: "inj_on cid (set (allChapters tree))"
    using dist by (simp add: getAllChapterIds_eq distinct_map)
  have nosel: "selectedDescendants ?ids n = []"
    using none by (auto simp: selectedDescendants_def has_selectedChapterIds filter_empty_conv)
  have step: "Q (processChapter Pdf ?ids mergedIds m pts st)"
    if m: "m \<in> set (allChapters tree)" and q: "Q st" for m pts st
  proof (cases "m = n")
    case True
    with q n(2) nosel show ?thesis by (simp add: processChapter_nothing_selected_below)
  next
    case False
    then have ne: "cid m \<noteq> cid n" using inj m n(1) by (auto dest: inj_onD)
    have below: "set (getAllDescendants m) \<subseteq> set (allChapters tree)"
      using allChapters_children_subset [OF m] by (simp add: getAllDescendants_eq)
    from processChapter_tasks [of Pdf ?ids mergedIds m pts st] show ?thesis
    proof
      assume "exportTasks (processChapter Pdf ?ids mergedIds m pts st) = exportTasks st"
      with q show ?thesis by (simp add: Q_def)
    next
      assume "\<exists>t. exportTasks (processChapter Pdf ?ids mergedIds m pts st) = exportTasks st @ [t] \<and>
        chapterId t = cid m \<and>
        (\<forall>u\<in>set (chapters t).
            (children u = [] \<and> (u = m \<or> cid u = cid m @ ascii ''_intro'')) \<or>
            (has mergedIds (cid m) \<and> u \<in> set (getAllDescendants m)))"
      then obtain t where t: "exportTasks (processChapter Pdf ?ids mergedIds m pts st) = exportTasks st @ [t]"
        "chapterId t = cid m"
        "\<forall>u\<in>set (chapters t).
            (children u = [] \<and> (u = m \<or> cid u = cid m @ ascii ''_intro'')) \<or>
            (has mergedIds (cid m) \<and> u \<in> set (getAllDescendants m))"
        by blast
      have unit: "?free \<longrightarrow> n \<notin> set (chapters t)"
        using t(3) n(2) m by blast
      have intro: "?fresh \<longrightarrow> (\<forall>u\<in>set (chapters t). cid u \<noteq> cid n @ ascii ''_intro'')"
      proof (intro impI ballI)
        fix u assume fresh: ?fresh and u: "u \<in> set (chapters t)"
        from t(3) u consider "u = m" | "cid u = cid m @ ascii ''_intro''"
          | "u \<in> set (getAllDescendants m)" by blast
        then show "cid u \<noteq> cid n @ ascii ''_intro''"
        proof cases
          case 1
          with m have "cid u \<in> set (getAllChapterIds tree)" by (simp add: getAllChapterIds_eq)
          with fresh show ?thesis by metis
        next
          case 2
          with ne show ?thesis by simp
        next
          case 3
          with below have "cid u \<in> set (getAllChapterIds tree)"
            by (auto simp: getAllChapterIds_eq)
          with fresh show ?thesis by metis
        qed
      qed
      from t(1,2) ne q unit intro show ?thesis by (simp add: Q_def)
    qed
  qed
  have init: "Q \<lparr>processed = [], exportTasks = []\<rparr>" by (simp add: Q_def)
  have final: "Q (traverseChapters Pdf ?ids mergedIds tree [] \<lparr>processed = [], exportTasks = []\<rparr>)"
    using step subset_refl init
    by (rule traverseChapters_invariant [where Q = Q and tree = tree])
  have sel_ne: "?selected \<noteq> []"
    using findSelectedChapters_member [OF n(1,3)] by auto
  obtain d where d: "d \<in> set (getAllDescendants n)"
    using n(2) by (cases n; cases "children n") auto
  then have "d \<in> set (allChapters tree)"
    using allChapters_children_subset [OF n(1)] by (auto simp: getAllDescendants_eq)
  moreover have "\<not> has selectedIds (cid d)" using none d by blast
  ultimately have "length ?selected < length (allChapters tree)"
    by (rule findSelectedChapters_unselected)
  then have notfull: "length ?selected \<noteq> length (getAllChapterIds tree)"
    by (simp add: length_getAllChapterIds)
  have "ChapterList_handleExport True Pdf tree selectedIds mode mergedIds =
      Some (exportTasks (traverseChapters Pdf ?ids mergedIds tree [] \<lparr>processed = [], exportTasks = []\<rparr>))"
    using sel_ne notfull by (simp add: ChapterList_handleExport_def handleExport_def Let_def)
  with final show ?thesis by (simp add: Q_def)
qed

theorem selected_parent_without_selected_descendants_witness:
  "distinct (getAllChapterIds exNestedTree) \<and> exN \<in> set (allChapters exNestedTree) \<and>
   children exN \<noteq> [] \<and> has [ascii ''chapter-0-0'', ascii ''chapter-1''] (cid exN) \<and>
   list_all (\<lambda>d. \<not> has [ascii ''chapter-0-0'', ascii ''chapter-1''] (cid d)) (getAllDescendants exN) \<and>
   cid exN @ ascii ''_intro'' \<notin> set (getAllChapterIds exNestedTree) \<and>
   list_all (\<lambda>m. exN \<notin> set (getAllDescendants m) \<or> \<not> has [ascii ''chapter-0-0''] (cid m))
     (allChapters exNestedTree) \<and>
   ChapterList_handleExport True Pdf exNestedTree [ascii ''chapter-0-0'', ascii ''chapter-1''] Separate
       [ascii ''chapter-0-0'']
     = Some [\<lparr>name = ascii ''B'', chapters = [exNestedB], parentTitles = [],
              chapterId = ascii ''chapter-1''\<rparr>] \<and>
   chapterId \<lparr>name = ascii ''B'', chapters = [exNestedB], parentTitles = [],
              chapterId = ascii ''chapter-1''\<rparr> \<noteq> cid exN \<and>
   cid exNestedB \<noteq> cid exN @ ascii ''_intro'' \<and>
   exN \<notin> set (chapters \<lparr>name = ascii ''B'', chapters = [exNestedB], parentTitles = [],
              chapterId = ascii ''chapter-1''\<rparr>)"
proof -
  let ?sel = "[ascii ''chapter-0-0'', ascii ''chapter-1'']"
  let ?taskB = "\<lparr>name = ascii ''B'', chapters = [exNestedB], parentTitles = [],
              chapterId = ascii ''chapter-1''\<rparr>"
  have h1: "distinct (getAllChapterIds exNestedTree)" by code_simp
  have h2: "exN \<in> set (allChapters exNestedTree)" by code_simp
  have h3: "children exN \<noteq> []" by code_simp
  have h4: "has ?sel (cid exN)" by code_simp
  have h5: "\<forall>d\<in>set (getAllDescendants exN). \<not> has ?sel (cid d)" by code_simp
  have h6: "\<forall>m\<in>set (allChapters exNestedTree).
      exN \<in> set (getAllDescendants m) \<longrightarrow> \<not> has [ascii ''chapter-0-0''] (cid m)"
    by code_simp
  have h7: "cid exN @ ascii ''_intro'' \<notin> set (getAllChapterIds exNestedTree)" by code_simp
  have run: "ChapterList_handleExport True Pdf exNestedTree ?sel Separate [ascii ''chapter-0-0'']
     = Some [?taskB]"
    by code_simp
  from selected_parent_without_selected_descendants [OF h1 h2 h3 h4 h5,
      of Separate "[ascii ''chapter-0-0'']"] run h6 h7
  have "chapterId ?taskB \<noteq> cid exN" and "exN \<notin> set (chapters ?taskB)"
    and "cid exNestedB \<noteq> cid exN @ ascii ''_intro''"
    by auto
  with h1 h2 h3 h4 h5 h6 h7 run show ?thesis
    by (simp add: list_all_iff)
qed

text \<open>
  Claim C10 as stated fails, twice over. In the nested book, N is selected, has the child
  L and no selected descendant, and its ancestor A is merge-flagged: the task for A holds
  N with its full span, pages 3 to 7. And in the book whose outline is K (page 1)
  followed by N (page 3) with the section L (page 5), with K and N selected and nothing
  flagged, N has no selected descendant and the only task is the leaf K, whose resolved
  range, pages 1 to 4, holds N's own pages 3 and 4. Either way pages of N are exported.
\<close>

theorem selected_parent_without_selected_descendants_counterexample:
  "map_sum id toChapters (extractPdfChapters (Some exNestedOutline) 10) = Inr exNestedTree \<and>
   ChapterList_handleExport True Pdf exNestedTree [ascii ''chapter-0-0''] Separate [ascii ''chapter-0'']
     = Some [\<lparr>name = ascii ''A'',
              chapters = [Chapter (ascii ''chapter-0_intro'') (ascii ''A'') (Some 1) (Some (Num 2)) None 0 [],
                          exN],
              parentTitles = [], chapterId = ascii ''chapter-0''\<rparr>] \<and>
   exN = Chapter (ascii ''chapter-0-0'') (ascii ''N'') (Some 3) (Some (Num 7)) None 1 [exL] \<and>
   map_sum id toChapters (extractPdfChapters (Some exLeafFirstOutline) 10)
     = Inr [exLeafFirstK, exLeafFirstN] \<and>
   ChapterList_handleExport True Pdf [exLeafFirstK, exLeafFirstN] [ascii ''chapter-0'', ascii ''chapter-1'']
       Separate []
     = Some [\<lparr>name = ascii ''K'', chapters = [exLeafFirstK], parentTitles = [],
              chapterId = ascii ''chapter-0''\<rparr>] \<and>
   exLeafFirstK = Chapter (ascii ''chapter-0'') (ascii ''K'') (Some 1) (Some (Num 4)) None 0 [] \<and>
   exLeafFirstN = Chapter (ascii ''chapter-1'') (ascii ''N'') (Some 3) (Some (Num 10)) None 0
                    [Chapter (ascii ''chapter-1-0'') (ascii ''L'') (Some 5) (Some (Num 10)) None 1 []]"
  by code_simp

subsection \<open>Determinism\<close>

lemma findSelectedChapters_cong:
  "set sel = set sel' \<Longrightarrow> findSelectedChapters sel tree = findSelectedChapters sel' tree"
  by (induction tree rule: allChapters.induct) (auto simp: has_def)

lemma processChapter_cong:
  "set mergedIds = set mergedIds' \<Longrightarrow>
   processChapter ft sel mergedIds ch pts st = processChapter ft sel mergedIds' ch pts st"
  by (simp add: processChapter_def has_def)

lemma traverseChapters_cong:
  "set mergedIds = set mergedIds' \<Longrightarrow>
   traverseChapters ft sel mergedIds chs pts st = traverseChapters ft sel mergedIds' chs pts st"
proof (induction ft sel mergedIds chs pts st rule: traverseChapters.induct)
  case (1 ft sel mergedIds pts st)
  then show ?case by simp
next
  case (2 ft sel mergedIds i t s e c l cs chs pts st)
  then show ?case
    by (simp add: Let_def processChapter_cong [of mergedIds mergedIds'])
qed


lemma ChapterList_handleExport_cong:
  assumes "set selectedIds = set selectedIds'" and "set mergedIds = set mergedIds'"
  shows "ChapterList_handleExport hasFile ft tree selectedIds mode mergedIds
         = ChapterList_handleExport hasFile ft tree selectedIds' mode mergedIds'"
  unfolding ChapterList_handleExport_def handleExport_def
    findSelectedChapters_cong [OF assms(1), of tree]
    traverseChapters_cong [OF assms(2)]
  by simp

text \<open>
  Claim C8. The task list depends on nothing but the tree, the file type, the mode and
  the membership of the two sets: two runs whose selection sets hold the same ids and
  whose merge-flag sets hold the same ids (in whatever order the ids were added) yield
  the same ordered task list, and so the same file names.
\<close>

theorem export_planning_deterministic:
  assumes "set selectedIds = set selectedIds'" and "set mergedIds = set mergedIds'"
  shows "ChapterList_handleExport hasFile ft tree selectedIds mode mergedIds
           = ChapterList_handleExport hasFile ft tree selectedIds' mode mergedIds' \<and>
         map_option exportFilenames
             (ChapterList_handleExport hasFile ft tree selectedIds mode mergedIds)
           = map_option exportFilenames
               (ChapterList_handleExport hasFile ft tree selectedIds' mode mergedIds')"
  using ChapterList_handleExport_cong [OF assms] by simp

theorem export_planning_deterministic_witness:
  "set [ascii ''chapter-0-0'', ascii ''chapter-0-1'', ascii ''chapter-1'']
     = set [ascii ''chapter-1'', ascii ''chapter-0-1'', ascii ''chapter-0-0'', ascii ''chapter-1''] \<and>
   set [ascii ''chapter-0''] = set [ascii ''chapter-0'', ascii ''chapter-0''] \<and>
   ChapterList_handleExport True Pdf exTree [ascii ''chapter-0-0'', ascii ''chapter-0-1'', ascii ''chapter-1'']
       Separate [ascii ''chapter-0'']
     = ChapterList_handleExport True Pdf exTree
         [ascii ''chapter-1'', ascii ''chapter-0-1'', ascii ''chapter-0-0'', ascii ''chapter-1''] Separate
         [ascii ''chapter-0'', ascii ''chapter-0''] \<and>
   map_option exportFilenames
       (ChapterList_handleExport True Pdf exTree
          [ascii ''chapter-1'', ascii ''chapter-0-1'', ascii ''chapter-0-0'', ascii ''chapter-1''] Separate
          [ascii ''chapter-0'', ascii ''chapter-0''])
     = Some [ascii ''01_A.pdf'', ascii ''02_B.pdf'']"
proof -
  have h1: "set [ascii ''chapter-0-0'', ascii ''chapter-0-1'', ascii ''chapter-1'']
     = set [ascii ''chapter-1'', ascii ''chapter-0-1'', ascii ''chapter-0-0'', ascii ''chapter-1'']"
    by auto
  have h2: "set [ascii ''chapter-0''] = set [ascii ''chapter-0'', ascii ''chapter-0'']" by simp
  have names: "map_option exportFilenames
       (ChapterList_handleExport True Pdf exTree [ascii ''chapter-0-0'', ascii ''chapter-0-1'', ascii ''chapter-1'']
          Separate [ascii ''chapter-0''])
     = Some [ascii ''01_A.pdf'', ascii ''02_B.pdf'']"
    by code_simp
  from export_planning_deterministic [OF h1 h2, of True Pdf exTree Separate] names h1 h2
  show ?thesis by simp
qed

section \<open>EPUB navigation, extraction and content loading\<close>

subsection \<open>Targets\<close>

lemma split_not_Nil [simp]: "split c s \<noteq> []"
  by (induction s) (auto split: list.splits)

lemma split_first: "split c s ! 0 = takeWhile (\<lambda>x. x \<noteq> c) s"
  by (induction s) (auto split: list.splits)

lemma split_second:
  "c \<in> set s \<Longrightarrow>
   1 < length (split c s) \<and>
   split c s ! 1 = takeWhile (\<lambda>x. x \<noteq> c) (tl (dropWhile (\<lambda>x. x \<noteq> c) s))"
proof (induction s)
  case Nil
  then show ?case by simp
next
  case (Cons x xs)
  show ?case
  proof (cases "x = c")
    case True
    have "0 < length (split c xs)" by simp
    with True show ?thesis by (simp add: split_first)
  next
    case False
    with Cons.prems have "c \<in> set xs" by simp
    with Cons.IH have ih: "1 < length (split c xs)"
      "split c xs ! 1 = takeWhile (\<lambda>x. x \<noteq> c) (tl (dropWhile (\<lambda>x. x \<noteq> c) xs))"
      by simp_all
    obtain s0 ss where sp: "split c xs = s0 # ss" by (cases "split c xs") simp_all
    with ih False show ?thesis by simp
  qed
qed

lemma splitTarget_hash:
  "codeUnit CHR ''#'' \<in> set target \<Longrightarrow>
   splitTarget target = (beforeHash target, Some (ascii ''#'' @ beforeHash (afterHash target)))"
  using split_second [of "codeUnit CHR ''#''" target]
  by (simp add: splitTarget_def nthOrUndefined_def split_first beforeHash_def afterHash_def)

lemma splitTarget_no_hash:
  "codeUnit CHR ''#'' \<notin> set target \<Longrightarrow> splitTarget target = (target, None)"
  by (simp add: splitTarget_def)

text \<open>
  Claim C7, as the code has it. For an NCX \<open>navPoint\<close> and for an item of the navigation
  document alike: when the target contains \<open>#\<close>, the chapter's resource path is what stands
  before the first \<open>#\<close>, and its anchor is \<open>#\<close> followed by what stands between the first
  \<open>#\<close> and the second one (or the end of the target); a second \<open>#\<close> and all after it are
  dropped. When the target contains no \<open>#\<close>, the resource path is the target and there is
  no anchor.
\<close>

theorem nav_target_split:
  "(codeUnit CHR ''#'' \<in> set target \<longrightarrow>
      (\<exists>ch. parseNavPoint (NavPoint (Some label) (Some (Some target)) kids) idPrefix lvl = Some ch \<and>
            href ch = beforeHash target \<and>
            anchor ch = Some (ascii ''#'' @ beforeHash (afterHash target))) \<and>
      (\<exists>ch rest. parseNavList (NavItem (Some (label, target)) sub # items) idPrefix lvl i = ch # rest \<and>
            href ch = beforeHash target \<and>
            anchor ch = Some (ascii ''#'' @ beforeHash (afterHash target)))) \<and>
   (codeUnit CHR ''#'' \<notin> set target \<longrightarrow>
      (\<exists>ch. parseNavPoint (NavPoint (Some label) (Some (Some target)) kids) idPrefix lvl = Some ch \<and>
            href ch = target \<and> anchor ch = None) \<and>
      (\<exists>ch rest. parseNavList (NavItem (Some (label, target)) sub # items) idPrefix lvl i = ch # rest \<and>
            href ch = target \<and> anchor ch = None))"
  by (simp add: splitTarget_hash splitTarget_no_hash Let_def)

theorem nav_target_split_witness:
  "codeUnit CHR ''#'' \<in> set (ascii ''ch1.xhtml#s1'') \<and>
   parseNavPoint (NavPoint (Some (ascii ''One'')) (Some (Some (ascii ''ch1.xhtml#s1''))) []) (ascii ''chapter-0'') 0
     = Some (EpubChapter (ascii ''chapter-0'') (ascii ''One'') (ascii ''ch1.xhtml'') (Some (ascii ''#s1'')) None 0 []) \<and>
   parseNavList [NavItem (Some (ascii ''One'', ascii ''ch1.xhtml#s1'')) []] (ascii ''chapter'') 0 0
     = [EpubChapter (ascii ''chapter-0'') (ascii ''One'') (ascii ''ch1.xhtml'') (Some (ascii ''#s1'')) None 0 []] \<and>
   beforeHash (ascii ''ch1.xhtml#s1'') = ascii ''ch1.xhtml'' \<and>
   beforeHash (afterHash (ascii ''ch1.xhtml#s1'')) = ascii ''s1'' \<and>
   codeUnit CHR ''#'' \<notin> set (ascii ''ch2.xhtml'') \<and>
   parseNavPoint (NavPoint (Some (ascii ''Two'')) (Some (Some (ascii ''ch2.xhtml''))) []) (ascii ''chapter-1'') 0
     = Some (EpubChapter (ascii ''chapter-1'') (ascii ''Two'') (ascii ''ch2.xhtml'') None None 0 [])"
proof -
  have h: "codeUnit CHR ''#'' \<in> set (ascii ''ch1.xhtml#s1'')" by simp
  have h': "codeUnit CHR ''#'' \<notin> set (ascii ''ch2.xhtml'')" by simp
  have b: "beforeHash (ascii ''ch1.xhtml#s1'') = ascii ''ch1.xhtml''"
    "beforeHash (afterHash (ascii ''ch1.xhtml#s1'')) = ascii ''s1''"
    by code_simp+
  have p: "parseNavPoint (NavPoint (Some (ascii ''One'')) (Some (Some (ascii ''ch1.xhtml#s1''))) []) (ascii ''chapter-0'') 0
     = Some (EpubChapter (ascii ''chapter-0'') (ascii ''One'') (ascii ''ch1.xhtml'') (Some (ascii ''#s1'')) None 0 [])"
    "parseNavList [NavItem (Some (ascii ''One'', ascii ''ch1.xhtml#s1'')) []] (ascii ''chapter'') 0 0
     = [EpubChapter (ascii ''chapter-0'') (ascii ''One'') (ascii ''ch1.xhtml'') (Some (ascii ''#s1'')) None 0 []]"
    "parseNavPoint (NavPoint (Some (ascii ''Two'')) (Some (Some (ascii ''ch2.xhtml''))) []) (ascii ''chapter-1'') 0
     = Some (EpubChapter (ascii ''chapter-1'') (ascii ''Two'') (ascii ''ch2.xhtml'') None None 0 [])"
    by code_simp+
  from nav_target_split [where target = "(ascii ''ch1.xhtml#s1'')" and label = "(ascii ''One'')" and kids = "[]"
      and idPrefix = "(ascii ''chapter-0'')" and lvl = 0] h
  have "\<exists>ch. parseNavPoint (NavPoint (Some (ascii ''One'')) (Some (Some (ascii ''ch1.xhtml#s1''))) []) (ascii ''chapter-0'') 0 = Some ch \<and>
            href ch = beforeHash (ascii ''ch1.xhtml#s1'') \<and>
            anchor ch = Some (ascii ''#'' @ beforeHash (afterHash (ascii ''ch1.xhtml#s1'')))"
    by blast
  moreover
  from nav_target_split [where target = "(ascii ''ch2.xhtml'')" and label = "(ascii ''Two'')" and kids = "[]"
      and idPrefix = "(ascii ''chapter-1'')" and lvl = 0] h'
  have "\<exists>ch. parseNavPoint (NavPoint (Some (ascii ''Two'')) (Some (Some (ascii ''ch2.xhtml''))) []) (ascii ''chapter-1'') 0 = Some ch \<and>
            href ch = ascii ''ch2.xhtml'' \<and> anchor ch = None"
    by blast
  ultimately show ?thesis using h h' b p by simp
qed

text \<open>
  Claim C7 as stated fails: of the target \<open>ch1.xhtml#s1#s2\<close> both parsers keep the anchor
  \<open>#s1\<close>, not all that follows the first \<open>#\<close>, which is \<open>s1#s2\<close>.
\<close>

theorem nav_target_split_counterexample:
  "parseNavPoint (NavPoint (Some (ascii ''One'')) (Some (Some (ascii ''ch1.xhtml#s1#s2''))) []) (ascii ''chapter-0'') 0
     = Some (EpubChapter (ascii ''chapter-0'') (ascii ''One'') (ascii ''ch1.xhtml'') (Some (ascii ''#s1'')) None 0 []) \<and>
   parseNavList [NavItem (Some (ascii ''One'', ascii ''ch1.xhtml#s1#s2'')) []] (ascii ''chapter'') 0 0
     = [EpubChapter (ascii ''chapter-0'') (ascii ''One'') (ascii ''ch1.xhtml'') (Some (ascii ''#s1'')) None 0 []] \<and>
   afterHash (ascii ''ch1.xhtml#s1#s2'') = ascii ''s1#s2''"
  by code_simp

subsection \<open>No table of contents\<close>

lemma parseOutlineItems_Nil_iff [simp]:
  "parseOutlineItems entries lvl idPrefix i = [] \<longleftrightarrow> entries = []"
  by (cases entries) simp_all

lemma calculateEndPages_Nil_iff [simp]: "calculateEndPages tree t = [] \<longleftrightarrow> tree = []"
  by (simp add: calculateEndPages_def Let_def)

lemma storeLeafContents_Nil_iff [simp]: "storeLeafContents written k cs = [] \<longleftrightarrow> cs = []"
  by (cases "(written, k, cs)" rule: storeLeafContents.cases) auto

lemma extractPdfChapters_not_empty: "extractPdfChapters outline numPages \<noteq> Inr []"
  by (simp add: extractPdfChapters_def split: option.splits)

lemma extractEpubChapters_not_empty: "extractEpubChapters f jszip \<noteq> Inr []"
  by (simp add: extractEpubChapters_def Let_def split: sum.splits prod.splits)

text \<open>
  Claim C5. A PDF whose outline is missing or has no entries makes \<open>extractPdfChapters\<close>
  fail with the error that says the file has no table of contents; an EPUB whose container
  and package document parse and whose navigation yields no top-level chapter makes
  \<open>extractEpubChapters\<close> fail with the corresponding error. Neither extractor ever returns
  an empty tree.
\<close>

theorem no_table_of_contents_fails:
  "((outline = None \<or> outline = Some []) \<longrightarrow>
      extractPdfChapters outline numPages = Inl NoPdfOutline) \<and>
   extractPdfChapters outline numPages \<noteq> Inr [] \<and>
   (parseContainer jszip = Inr opfPath \<and>
    parseContentOpf jszip opfPath = Inr (basePath, nav, ncx) \<and>
    parseNavigation jszip basePath nav ncx = [] \<longrightarrow>
      extractEpubChapters f jszip = Inl NoEpubToc) \<and>
   extractEpubChapters f jszip \<noteq> Inr []"
proof -
  have pdf: "(outline = None \<or> outline = Some []) \<longrightarrow>
      extractPdfChapters outline numPages = Inl NoPdfOutline"
    by (auto simp: extractPdfChapters_def)
  have epub: "parseContainer jszip = Inr opfPath \<and>
    parseContentOpf jszip opfPath = Inr (basePath, nav, ncx) \<and>
    parseNavigation jszip basePath nav ncx = [] \<longrightarrow>
      extractEpubChapters f jszip = Inl NoEpubToc"
    by (simp add: extractEpubChapters_def)
  from pdf epub extractPdfChapters_not_empty extractEpubChapters_not_empty
  show ?thesis by blast
qed

theorem no_table_of_contents_fails_witness:
  "extractPdfChapters (Some []) 30 = Inl NoPdfOutline \<and>
   extractPdfChapters None 30 = Inl NoPdfOutline \<and>
   parseContainer exEmptyArchive = Inr (ascii ''content.opf'') \<and>
   parseContentOpf exEmptyArchive (ascii ''content.opf'') = Inr ([], Some (ascii ''nav.xhtml''), Some (ascii ''toc.ncx'')) \<and>
   parseNavigation exEmptyArchive [] (Some (ascii ''nav.xhtml'')) (Some (ascii ''toc.ncx'')) = [] \<and>
   extractEpubChapters (\<lambda>html a. html) exEmptyArchive = Inl NoEpubToc"
proof -
  have h1: "parseContainer exEmptyArchive = Inr (ascii ''content.opf'')" by code_simp
  have h2: "parseContentOpf exEmptyArchive (ascii ''content.opf'')
      = Inr ([], Some (ascii ''nav.xhtml''), Some (ascii ''toc.ncx''))"
    by code_simp
  have h3: "parseNavigation exEmptyArchive [] (Some (ascii ''nav.xhtml'')) (Some (ascii ''toc.ncx'')) = []"
    by code_simp
  note inst1 = no_table_of_contents_fails [where outline = "Some []" and numPages = 30
      and jszip = exEmptyArchive and opfPath = "(ascii ''content.opf'')" and basePath = "[]"
      and nav = "Some (ascii ''nav.xhtml'')" and ncx = "Some (ascii ''toc.ncx'')" and f = "\<lambda>html a. html"]
  note inst2 = no_table_of_contents_fails [where outline = None and numPages = 30
      and jszip = exEmptyArchive and opfPath = "(ascii ''content.opf'')" and basePath = "[]"
      and nav = "Some (ascii ''nav.xhtml'')" and ncx = "Some (ascii ''toc.ncx'')" and f = "\<lambda>html a. html"]
  from inst1 inst2 h1 h2 h3 show ?thesis by simp
qed

subsection \<open>Content loading\<close>

text \<open>
  Claim C6 fails on the code. The two sections of the example EPUB are leaves of the first
  batch and share the content document \<open>OEBPS/ch1.xhtml\<close>; each of the two callbacks finds
  the cache empty and starts its own read, so the document is read twice. Both leaves
  then receive the same text.
\<close>

theorem shared_resource_read_twice:
  "archiveReads (loadBatches (\<lambda>html a. html) exArchive (ascii ''OEBPS'')
       (collectEpubLeaves (parseNav exArchive (ascii ''OEBPS/nav.xhtml'')))
       \<lparr>fileCache = Map.empty, archiveReads = [], assigned = []\<rparr>)
     = [ascii ''OEBPS/ch1.xhtml'', ascii ''OEBPS/ch1.xhtml''] \<and>
   extractEpubChapters (\<lambda>html a. html) exArchive
     = Inr [EpubChapter (ascii ''chapter-0'') (ascii ''Section 1'') (ascii ''ch1.xhtml'') (Some (ascii ''#s1''))
              (Some (ascii ''<h1 id=s1>One</h1><h1 id=s2>Two</h1>'')) 0 [],
            EpubChapter (ascii ''chapter-1'') (ascii ''Section 2'') (ascii ''ch1.xhtml'') (Some (ascii ''#s2''))
              (Some (ascii ''<h1 id=s1>One</h1><h1 id=s2>Two</h1>'')) 0 []]"
  by code_simp

end
